theory Spec2Isabelle
  imports Main "HOL-Library.Sublist"
begin

section \<open>Python values shared by the scripts\<close>

text \<open>
  Every script of the repository is a sequence of "build request, send, parse JSON, print".
  Python strings are modelled as \<^typ>\<open>string\<close>: one \<^typ>\<open>char\<close> per character, so
  \<open>s[:n]\<close> is \<^term>\<open>take n s\<close> and \<open>len(s)\<close> is \<^term>\<open>length s\<close>. A \<^typ>\<open>char\<close> is
  one of the 256 code points below \<open>0x100\<close> (ASCII and Latin-1), and the strings of the
  model are the Python strings over these. \<open>str.lower\<close> and \<open>str.strip\<close> are modelled as
  Python has them on all 256; so is \<open>str.upper\<close>, but for the two characters whose
  upper-case form lies above \<open>0xFF\<close>, which the theorems about \<open>upper\<close> exclude.

  A value read from or written to a request body is a \<open>json\<close> value: Python's \<open>None\<close> is
  \<open>JNull\<close>, a \<open>dict\<close> is \<open>JObj\<close> over an association list in insertion order.
\<close>

datatype json =
    JNull
  | JBool bool
  | JNum int
  | JStr string
  | JArr "json list"
  | JObj "(string \<times> json) list"

fun obj_get :: "json \<Rightarrow> string \<Rightarrow> json option" where
  "obj_get (JObj kvs) k = map_of kvs k"
| "obj_get _ k = None"


section \<open>The ADF builder of \<open>templates/python-jira-utils.py\<close>\<close>

text \<open>
  A section is the dict handed to \<open>build_adf\<close>; a field is \<open>None\<close> when the key is not in
  the dict. The docstring fixes the types of the values: \<open>heading\<close>, \<open>paragraph\<close>, \<open>code\<close> and
  \<open>language\<close> are \<open>str\<close>, \<open>level\<close> is \<open>int\<close>, \<open>bullets\<close> is \<open>list[str]\<close>.
\<close>

record section_spec =
  sec_heading :: "string option"
  sec_level :: "int option"
  sec_paragraph :: "string option"
  sec_bullets :: "string list option"
  sec_code :: "string option"
  sec_language :: "string option"

definition text_node :: "string \<Rightarrow> json" where
  "text_node t = JObj [(''type'', JStr ''text''), (''text'', JStr t)]"

definition heading_node :: "int \<Rightarrow> string \<Rightarrow> json" where
  "heading_node lvl h =
     JObj [(''type'', JStr ''heading''),
           (''attrs'', JObj [(''level'', JNum lvl)]),
           (''content'', JArr [text_node h])]"

definition paragraph_node :: "string \<Rightarrow> json" where
  "paragraph_node p = JObj [(''type'', JStr ''paragraph''), (''content'', JArr [text_node p])]"

definition list_item_node :: "string \<Rightarrow> json" where
  "list_item_node bullet =
     JObj [(''type'', JStr ''listItem''), (''content'', JArr [paragraph_node bullet])]"

definition bullet_list_node :: "string list \<Rightarrow> json" where
  "bullet_list_node bs =
     JObj [(''type'', JStr ''bulletList''), (''content'', JArr (map list_item_node bs))]"

definition code_block_node :: "string \<Rightarrow> string \<Rightarrow> json" where
  "code_block_node lang c =
     JObj [(''type'', JStr ''codeBlock''),
           (''attrs'', JObj [(''language'', JStr lang)]),
           (''content'', JArr [text_node c])]"

text \<open>The body of the \<open>for section in sections\<close> loop: four independent \<open>if key in section\<close>
  tests, each appending one block to \<open>content\<close>.\<close>

definition append_section :: "json list \<Rightarrow> section_spec \<Rightarrow> json list" where
  "append_section content s =
     (let content1 = (case sec_heading s of
                        None \<Rightarrow> content
                      | Some h \<Rightarrow>
                          content @ [heading_node (case sec_level s of None \<Rightarrow> 2 | Some l \<Rightarrow> l) h]);
          content2 = (case sec_paragraph s of
                        None \<Rightarrow> content1
                      | Some p \<Rightarrow> content1 @ [paragraph_node p]);
          content3 = (case sec_bullets s of
                        None \<Rightarrow> content2
                      | Some bs \<Rightarrow> content2 @ [bullet_list_node bs]);
          content4 = (case sec_code s of
                        None \<Rightarrow> content3
                      | Some c \<Rightarrow>
                          content3 @
                            [code_block_node (case sec_language s of None \<Rightarrow> ''text'' | Some l \<Rightarrow> l) c])
      in content4)"

definition build_adf :: "section_spec list \<Rightarrow> json" where
  "build_adf sections =
     (let content = foldl append_section [] sections
      in JObj [(''type'', JStr ''doc''), (''version'', JNum 1), (''content'', JArr content)])"

definition simple_adf :: "string \<Rightarrow> json" where
  "simple_adf t =
     JObj [(''type'', JStr ''doc''), (''version'', JNum 1), (''content'', JArr [paragraph_node t])]"

text \<open>What the claim counts: the keys of a section among heading, paragraph, bullets and
  code, and the block types they stand for, in the order of the four tests.\<close>

definition keys_present :: "section_spec \<Rightarrow> nat" where
  "keys_present s =
     (if sec_heading s = None then 0 else 1) + (if sec_paragraph s = None then 0 else 1) +
     (if sec_bullets s = None then 0 else 1) + (if sec_code s = None then 0 else 1)"

definition block_kinds :: "section_spec \<Rightarrow> string list" where
  "block_kinds s =
     (if sec_heading s = None then [] else [''heading'']) @
     (if sec_paragraph s = None then [] else [''paragraph'']) @
     (if sec_bullets s = None then [] else [''bulletList'']) @
     (if sec_code s = None then [] else [''codeBlock''])"

definition node_type :: "json \<Rightarrow> string option" where
  "node_type j = (case obj_get j ''type'' of Some (JStr t) \<Rightarrow> Some t | _ \<Rightarrow> None)"


section \<open>Strings\<close>

text \<open>The letters that have another case among the 256 characters: the 26 of ASCII, and
  the 30 of Latin-1 from \<open>0xC0\<close> to \<open>0xDE\<close> (capitals) and from \<open>0xE0\<close> to \<open>0xFE\<close> (small
  letters), without the signs \<open>0xD7\<close> and \<open>0xF7\<close>.\<close>

definition capitals :: string where
  "capitals =
     ''ABCDEFGHIJKLMNOPQRSTUVWXYZ'' @
     [CHR 0xC0, CHR 0xC1, CHR 0xC2, CHR 0xC3, CHR 0xC4, CHR 0xC5, CHR 0xC6, CHR 0xC7,
     CHR 0xC8, CHR 0xC9, CHR 0xCA, CHR 0xCB, CHR 0xCC, CHR 0xCD, CHR 0xCE, CHR 0xCF,
     CHR 0xD0, CHR 0xD1, CHR 0xD2, CHR 0xD3, CHR 0xD4, CHR 0xD5, CHR 0xD6, CHR 0xD8,
     CHR 0xD9, CHR 0xDA, CHR 0xDB, CHR 0xDC, CHR 0xDD, CHR 0xDE]"

definition smalls :: string where
  "smalls =
     ''abcdefghijklmnopqrstuvwxyz'' @
     [CHR 0xE0, CHR 0xE1, CHR 0xE2, CHR 0xE3, CHR 0xE4, CHR 0xE5, CHR 0xE6, CHR 0xE7,
     CHR 0xE8, CHR 0xE9, CHR 0xEA, CHR 0xEB, CHR 0xEC, CHR 0xED, CHR 0xEE, CHR 0xEF,
     CHR 0xF0, CHR 0xF1, CHR 0xF2, CHR 0xF3, CHR 0xF4, CHR 0xF5, CHR 0xF6, CHR 0xF8,
     CHR 0xF9, CHR 0xFA, CHR 0xFB, CHR 0xFC, CHR 0xFD, CHR 0xFE]"

text \<open>\<open>str.lower()\<close>: a capital becomes its small letter, every other character stays.\<close>

definition lower_char :: "char \<Rightarrow> char" where
  "lower_char c = (case map_of (zip capitals smalls) c of None \<Rightarrow> c | Some l \<Rightarrow> l)"

definition lower :: "string \<Rightarrow> string" where
  "lower s = map lower_char s"

text \<open>\<open>str.upper()\<close>: a small letter becomes its capital, the sharp s \<open>0xDF\<close> becomes \<open>SS\<close>,
  every other character stays. The micro sign \<open>0xB5\<close> and the y with diaeresis \<open>0xFF\<close>
  have their upper-case forms at \<open>0x39C\<close> and \<open>0x178\<close>, which no \<^typ>\<open>char\<close> is;
  \<open>upper_char\<close> leaves them as they are, and \<open>upper_in_model\<close> is the condition that a
  string has neither, under which \<open>upper\<close> is \<open>str.upper()\<close>.\<close>

definition upper_char :: "char \<Rightarrow> string" where
  "upper_char c =
     (if c = CHR 0xDF then ''SS''
      else (case map_of (zip smalls capitals) c of None \<Rightarrow> [c] | Some u \<Rightarrow> [u]))"

definition upper :: "string \<Rightarrow> string" where
  "upper s = concat (map upper_char s)"

definition upper_in_model :: "string \<Rightarrow> bool" where
  "upper_in_model s \<longleftrightarrow> CHR 0xB5 \<notin> set s \<and> CHR 0xFF \<notin> set s"

text \<open>The characters \<open>str.strip()\<close> removes: tab, line feed, vertical tab, form feed,
  carriage return, the four separators \<open>0x1C\<close> to \<open>0x1F\<close>, the space, next line \<open>0x85\<close>
  and the no-break space \<open>0xA0\<close>.\<close>

definition is_space :: "char \<Rightarrow> bool" where
  "is_space c \<longleftrightarrow>
     c \<in> set [CHR 0x09, CHR 0x0A, CHR 0x0B, CHR 0x0C, CHR 0x0D,
               CHR 0x1C, CHR 0x1D, CHR 0x1E, CHR 0x1F, CHR '' '', CHR 0x85, CHR 0xA0]"

definition strip :: "string \<Rightarrow> string" where
  "strip s = rev (dropWhile is_space (rev (dropWhile is_space s)))"

text \<open>\<open>str(n)\<close> of a status code, as the f-string \<open>f'{e.code}: ...'\<close> writes it.\<close>

definition digit_char :: "nat \<Rightarrow> char" where
  "digit_char d = ''0123456789'' ! d"

function str_nat :: "nat \<Rightarrow> string" where
  "str_nat n = (if n < 10 then [digit_char n] else str_nat (n div 10) @ [digit_char (n mod 10)])"
  by pat_completeness auto
termination
  by (relation "measure (\<lambda>n. n)") auto

declare str_nat.simps [simp del]


section \<open>Exceptions, requests and the remote side\<close>

text \<open>
  The exceptions the scripts raise or let through. \<open>Exception msg\<close> is the one the request
  helpers raise themselves, \<open>Exception(f'{e.code}: {error_body[:200]}')\<close>; \<open>HTTPError\<close> is
  urllib's own (status code and body), \<open>URLError\<close> a request that got no HTTP answer.
\<close>

datatype py_exception =
    Exception string
  | HTTPError nat string
  | URLError
  | JSONDecodeError
  | KeyError string
  | TypeError
  | AttributeError
  | ValueError
  | EOFError

text \<open>What \<open>urlopen(req)\<close> does: it returns a response (status and decoded body), or raises
  \<open>HTTPError\<close> (code and decoded body), or raises \<open>URLError\<close>.\<close>

datatype urlopen_result =
    Responded nat string
  | RaisedHTTPError nat string
  | RaisedURLError

text \<open>A request as \<open>Request(url, data=body, headers=HEADERS, method=method)\<close> builds it; the
  headers are the same constant on every request and are left out. The body is kept as the
  JSON value that \<open>json.dumps\<close> serialises; \<open>None\<close> when no body is sent.\<close>

record request =
  req_method :: string
  req_url :: string
  req_body :: "json option"

text \<open>Truth value of a Python object, as \<open>if data\<close> and \<open>if not space\<close> test it.\<close>

fun truthy :: "json \<Rightarrow> bool" where
  "truthy JNull = False"
| "truthy (JBool b) = b"
| "truthy (JNum n) = (n \<noteq> 0)"
| "truthy (JStr s) = (s \<noteq> [])"
| "truthy (JArr xs) = (xs \<noteq> [])"
| "truthy (JObj kvs) = (kvs \<noteq> [])"

text \<open>\<open>body = json.dumps(data).encode('utf-8') if data else None\<close>\<close>

definition body_of :: "json \<Rightarrow> json option" where
  "body_of data = (if truthy data then Some data else None)"

text \<open>
  What a script runs against: the remote side, a function from its own state and a request
  to what \<open>urlopen\<close> does and the next state; the two pieces of library code whose result
  depends on more than the scripts, \<open>json.loads\<close> (\<open>None\<close> when it raises
  \<open>JSONDecodeError\<close>) and the text an f-string writes for a parsed value that is not a
  \<open>str\<close>; and the module-level constants read from the environment. A run threads the
  remote state and keeps the list of requests sent. Output on \<open>stdout\<close> is not modelled.
\<close>

record 'w ctx =
  json_loads :: "string \<Rightarrow> json option"
  py_str :: "json \<Rightarrow> string"
  remote :: "'w \<Rightarrow> request \<Rightarrow> urlopen_result \<times> 'w"
  JIRA_BASE_URL :: string
  PROJECT_KEY :: string

record 'w io =
  world :: 'w
  sent :: "request list"

definition urlopen :: "'w ctx \<Rightarrow> 'w io \<Rightarrow> request \<Rightarrow> urlopen_result \<times> 'w io" where
  "urlopen c st req =
     (case remote c (world st) req of
        (r, w') \<Rightarrow> (r, \<lparr>world = w', sent = sent st @ [req]\<rparr>))"

definition parse_json :: "'w ctx \<Rightarrow> string \<Rightarrow> py_exception + json" where
  "parse_json c body = (case json_loads c body of None \<Rightarrow> Inl JSONDecodeError | Some j \<Rightarrow> Inr j)"

text \<open>\<open>f'{x}'\<close> of a parsed value.\<close>

definition format_value :: "'w ctx \<Rightarrow> json \<Rightarrow> string" where
  "format_value c j = (case j of JStr s \<Rightarrow> s | _ \<Rightarrow> py_str c j)"

text \<open>\<open>x[key]\<close> on a parsed value: a dict looks the key up, anything else raises
  \<open>TypeError\<close>.\<close>

fun getitem :: "json \<Rightarrow> string \<Rightarrow> py_exception + json" where
  "getitem (JObj kvs) k = (case map_of kvs k of None \<Rightarrow> Inl (KeyError k) | Some v \<Rightarrow> Inr v)"
| "getitem _ k = Inl TypeError"

text \<open>\<open>x.lower()\<close>: only a \<open>str\<close> has the method.\<close>

fun str_lower :: "json \<Rightarrow> py_exception + string" where
  "str_lower (JStr s) = Inr (lower s)"
| "str_lower _ = Inl AttributeError"

text \<open>\<open>for t in x\<close>: a list yields its elements, a dict its keys, a string its
  characters; numbers, booleans and \<open>None\<close> raise \<open>TypeError\<close>.\<close>

fun py_iter :: "json \<Rightarrow> py_exception + json list" where
  "py_iter (JArr xs) = Inr xs"
| "py_iter (JObj kvs) = Inr (map (\<lambda>kv. JStr (fst kv)) kvs)"
| "py_iter (JStr s) = Inr (map (\<lambda>ch. JStr [ch]) s)"
| "py_iter _ = Inl TypeError"


section \<open>The request helpers\<close>

text \<open>
  Each script carries its own copy of the helper. The copies differ in the statuses answered
  with \<open>None\<close> and in the length of the body snippet:
  \<^item> \<open>jira_request\<close> of \<open>templates/python-jira-utils.py\<close>: 204, 300 characters;
  \<^item> \<open>make_request\<close> of \<open>bulk-create.py\<close>, \<open>create-one.py\<close> and \<open>workflow-demo.py\<close>
    (the same text in all three): 204, 200 characters;
  \<^item> \<open>make_request\<close> of \<open>jira-search/scripts/check-issues.py\<close>: no status test, 200
    characters;
  \<^item> \<open>confluence_request\<close> of \<open>create-space.py\<close> and \<open>delete-space.py\<close>: 204 and 202,
    300 characters.
\<close>

definition jira_request_result :: "'w ctx \<Rightarrow> urlopen_result \<Rightarrow> py_exception + json" where
  "jira_request_result c r =
     (case r of
        Responded status body \<Rightarrow> if status = 204 then Inr JNull else parse_json c body
      | RaisedHTTPError code error_body \<Rightarrow>
          Inl (Exception (str_nat code @ '': '' @ take 300 error_body))
      | RaisedURLError \<Rightarrow> Inl URLError)"

definition jira_request ::
  "'w ctx \<Rightarrow> 'w io \<Rightarrow> string \<Rightarrow> string \<Rightarrow> string \<Rightarrow> json \<Rightarrow> (py_exception + json) \<times> 'w io" where
  "jira_request c st base_url path method data =
     (case urlopen c st
             \<lparr>req_method = method, req_url = base_url @ ''/rest/api/3'' @ path,
              req_body = body_of data\<rparr> of
        (r, st') \<Rightarrow> (jira_request_result c r, st'))"

definition make_request_result :: "'w ctx \<Rightarrow> urlopen_result \<Rightarrow> py_exception + json" where
  "make_request_result c r =
     (case r of
        Responded status body \<Rightarrow> if status = 204 then Inr JNull else parse_json c body
      | RaisedHTTPError code error_body \<Rightarrow>
          Inl (Exception (str_nat code @ '': '' @ take 200 error_body))
      | RaisedURLError \<Rightarrow> Inl URLError)"

definition make_request ::
  "'w ctx \<Rightarrow> 'w io \<Rightarrow> string \<Rightarrow> string \<Rightarrow> json \<Rightarrow> (py_exception + json) \<times> 'w io" where
  "make_request c st method path data =
     (case urlopen c st
             \<lparr>req_method = method, req_url = JIRA_BASE_URL c @ ''/rest/api/3'' @ path,
              req_body = body_of data\<rparr> of
        (r, st') \<Rightarrow> (make_request_result c r, st'))"

definition check_issues_make_request_result ::
  "'w ctx \<Rightarrow> urlopen_result \<Rightarrow> py_exception + json" where
  "check_issues_make_request_result c r =
     (case r of
        Responded status body \<Rightarrow> parse_json c body
      | RaisedHTTPError code error_body \<Rightarrow>
          Inl (Exception (str_nat code @ '': '' @ take 200 error_body))
      | RaisedURLError \<Rightarrow> Inl URLError)"

definition confluence_request_result :: "'w ctx \<Rightarrow> urlopen_result \<Rightarrow> py_exception + json" where
  "confluence_request_result c r =
     (case r of
        Responded status body \<Rightarrow>
          if status \<in> set [204, 202] then Inr JNull else parse_json c body
      | RaisedHTTPError code error_body \<Rightarrow>
          Inl (Exception (str_nat code @ '': '' @ take 300 error_body))
      | RaisedURLError \<Rightarrow> Inl URLError)"

definition confluence_request ::
  "'w ctx \<Rightarrow> 'w io \<Rightarrow> string \<Rightarrow> string \<Rightarrow> json \<Rightarrow> (py_exception + json) \<times> 'w io" where
  "confluence_request c st path method data =
     (case urlopen c st
             \<lparr>req_method = method, req_url = JIRA_BASE_URL c @ ''/wiki/rest/api'' @ path,
              req_body = body_of data\<rparr> of
        (r, st') \<Rightarrow> (confluence_request_result c r, st'))"


section \<open>The configuration loader of \<open>templates/python-jira-utils.py\<close>\<close>

text \<open>
  The process environment is a map from names to values. The environment file is the list
  of its lines, as \<open>for line in f\<close> yields them, or \<open>None\<close> when the file does not exist.
  \<open>os.environ.setdefault(k, v)\<close> leaves a name that is set alone; for a name that is not
  set it calls \<open>os.putenv\<close>, which raises \<open>ValueError\<close> on an empty name, a name with
  \<open>=\<close> in it, or an embedded null character. The exception is not caught: \<open>load_env\<close>
  stops at that line.
\<close>

type_synonym environ = "string \<rightharpoonup> string"

definition putenv_rejects :: "string \<Rightarrow> string \<Rightarrow> bool" where
  "putenv_rejects k v \<longleftrightarrow>
     k = [] \<or> CHR ''='' \<in> set k \<or> CHR 0x00 \<in> set k \<or> CHR 0x00 \<in> set v"

definition setdefault :: "environ \<Rightarrow> string \<Rightarrow> string \<Rightarrow> py_exception + environ" where
  "setdefault env k v =
     (case env k of
        Some old \<Rightarrow> Inr env
      | None \<Rightarrow> if putenv_rejects k v then Inl ValueError else Inr (env(k \<mapsto> v)))"

text \<open>One line of the file: \<open>None\<close> when the line is skipped, otherwise the stripped key
  and value of \<open>line.split('=', 1)\<close>.\<close>

definition env_line :: "string \<Rightarrow> (string \<times> string) option" where
  "env_line l =
     (let line = strip l in
      if line \<noteq> [] \<and> take 1 line \<noteq> ''#'' \<and> CHR ''='' \<in> set line
      then Some (strip (takeWhile (\<lambda>ch. ch \<noteq> CHR ''='') line),
                 strip (drop 1 (dropWhile (\<lambda>ch. ch \<noteq> CHR ''='') line)))
      else None)"

fun load_env_lines :: "environ \<Rightarrow> string list \<Rightarrow> environ \<times> py_exception option" where
  "load_env_lines env [] = (env, None)"
| "load_env_lines env (l # ls) =
     (case env_line l of
        None \<Rightarrow> load_env_lines env ls
      | Some (k, v) \<Rightarrow>
          (case setdefault env k v of
             Inl e \<Rightarrow> (env, Some e)
           | Inr env' \<Rightarrow> load_env_lines env' ls))"

definition load_env :: "environ \<Rightarrow> string list option \<Rightarrow> environ \<times> py_exception option" where
  "load_env env file = (case file of None \<Rightarrow> (env, None) | Some ls \<Rightarrow> load_env_lines env ls)"

text \<open>The dict \<open>get_config\<close> returns. \<open>os.environ.get(name)\<close> is \<open>None\<close> for a name that is
  not set; \<open>all([...])\<close> fails on \<open>None\<close> and on the empty string.\<close>

record config =
  cfg_email :: "string option"
  cfg_token :: "string option"
  cfg_base_url :: "string option"
  cfg_project_key :: string
  cfg_board_id :: string

datatype sys_exit = SystemExit nat "string list"

definition str_truthy :: "string option \<Rightarrow> bool" where
  "str_truthy v = (case v of None \<Rightarrow> False | Some s \<Rightarrow> s \<noteq> [])"

definition missing_credentials :: sys_exit where
  "missing_credentials =
     SystemExit 1
       [''Error: Missing required environment variables.'',
        ''Required: JIRA_EMAIL, JIRA_API_TOKEN, JIRA_BASE_URL'',
        ''Set these in .claude/skills/jira/.env or export them manually.'']"

definition get_config :: "environ \<Rightarrow> sys_exit + config" where
  "get_config env =
     (let config =
            \<lparr>cfg_email = env ''JIRA_EMAIL'',
             cfg_token = env ''JIRA_API_TOKEN'',
             cfg_base_url = env ''JIRA_BASE_URL'',
             cfg_project_key = (case env ''JIRA_PROJECT_KEY'' of None \<Rightarrow> ''SCRUM'' | Some v \<Rightarrow> v),
             cfg_board_id = (case env ''JIRA_BOARD_ID'' of None \<Rightarrow> ''1'' | Some v \<Rightarrow> v)\<rparr>
      in if \<not> (str_truthy (cfg_email config) \<and> str_truthy (cfg_token config) \<and>
                str_truthy (cfg_base_url config))
         then Inl missing_credentials
         else Inr config)"


section \<open>Issue creation\<close>

text \<open>\<open>create_issue\<close> of \<open>jira-agile/scripts/bulk-create.py\<close>: the summary is cut with
  \<open>summary[:255]\<close>.\<close>

definition bulk_create_issue ::
  "'w ctx \<Rightarrow> 'w io \<Rightarrow> string \<Rightarrow> string \<Rightarrow> (py_exception + json) \<times> 'w io" where
  "bulk_create_issue c st summary issue_type =
     (let fields = JObj [(''project'', JObj [(''key'', JStr (PROJECT_KEY c))]),
                         (''issuetype'', JObj [(''name'', JStr issue_type)]),
                         (''summary'', JStr (take 255 summary))]
      in make_request c st ''POST'' ''/issue'' (JObj [(''fields'', fields)]))"

text \<open>\<open>create_issue\<close> of \<open>jira-issues/scripts/create-one.py\<close>: the summary goes into the
  fields as it is; \<open>description\<close> and \<open>parent_key\<close> default to \<open>None\<close> and are added when
  they are not empty.\<close>

definition create_one_create_issue ::
  "'w ctx \<Rightarrow> 'w io \<Rightarrow> string \<Rightarrow> string \<Rightarrow> string option \<Rightarrow> string option \<Rightarrow>
     (py_exception + json) \<times> 'w io" where
  "create_one_create_issue c st summary issue_type description parent_key =
     (let fields0 = [(''project'', JObj [(''key'', JStr (PROJECT_KEY c))]),
                     (''issuetype'', JObj [(''name'', JStr issue_type)]),
                     (''summary'', JStr summary)];
          fields1 = (case description of
                       None \<Rightarrow> fields0
                     | Some d \<Rightarrow>
                         if d \<noteq> [] then fields0 @ [(''description'', simple_adf d)] else fields0);
          fields2 = (case parent_key of
                       None \<Rightarrow> fields1
                     | Some pk \<Rightarrow>
                         if pk \<noteq> [] then fields1 @ [(''parent'', JObj [(''key'', JStr pk)])]
                         else fields1)
      in make_request c st ''POST'' ''/issue'' (JObj [(''fields'', JObj fields2)]))"

text \<open>\<open>create_epic\<close>, \<open>create_story\<close> and \<open>create_subtask\<close> of
  \<open>templates/python-jira-utils.py\<close>.\<close>

definition create_epic ::
  "'w ctx \<Rightarrow> 'w io \<Rightarrow> string \<Rightarrow> string \<Rightarrow> string \<Rightarrow> section_spec list \<Rightarrow>
     (py_exception + json) \<times> 'w io" where
  "create_epic c st base_url project_key summary description_sections =
     (let fields = JObj [(''project'', JObj [(''key'', JStr project_key)]),
                         (''issuetype'', JObj [(''name'', JStr ''Epic'')]),
                         (''summary'', JStr summary),
                         (''description'', build_adf description_sections)]
      in jira_request c st base_url ''/issue'' ''POST'' (JObj [(''fields'', fields)]))"

definition create_story ::
  "'w ctx \<Rightarrow> 'w io \<Rightarrow> string \<Rightarrow> string \<Rightarrow> string \<Rightarrow> section_spec list \<Rightarrow> string option \<Rightarrow>
     string list option \<Rightarrow> (py_exception + json) \<times> 'w io" where
  "create_story c st base_url project_key summary description_sections parent_epic_key labels =
     (let fields0 = [(''project'', JObj [(''key'', JStr project_key)]),
                     (''issuetype'', JObj [(''name'', JStr ''Story'')]),
                     (''summary'', JStr summary),
                     (''description'', build_adf description_sections)];
          fields1 = (case parent_epic_key of
                       None \<Rightarrow> fields0
                     | Some pk \<Rightarrow>
                         if pk \<noteq> [] then fields0 @ [(''parent'', JObj [(''key'', JStr pk)])]
                         else fields0);
          fields2 = (case labels of
                       None \<Rightarrow> fields1
                     | Some ls \<Rightarrow>
                         if ls \<noteq> [] then fields1 @ [(''labels'', JArr (map JStr ls))]
                         else fields1)
      in jira_request c st base_url ''/issue'' ''POST'' (JObj [(''fields'', JObj fields2)]))"

definition create_subtask ::
  "'w ctx \<Rightarrow> 'w io \<Rightarrow> string \<Rightarrow> string \<Rightarrow> string \<Rightarrow> string \<Rightarrow> (py_exception + json) \<times> 'w io" where
  "create_subtask c st base_url project_key parent_key summary =
     (let fields = JObj [(''project'', JObj [(''key'', JStr project_key)]),
                         (''issuetype'', JObj [(''name'', JStr ''Subtask'')]),
                         (''parent'', JObj [(''key'', JStr parent_key)]),
                         (''summary'', JStr summary)]
      in jira_request c st base_url ''/issue'' ''POST'' (JObj [(''fields'', fields)]))"

text \<open>The summary a request carries under \<open>fields\<close>, when it carries one.\<close>

definition sent_summary :: "request \<Rightarrow> json option" where
  "sent_summary r =
     (case req_body r of
        None \<Rightarrow> None
      | Some b \<Rightarrow> (case obj_get b ''fields'' of None \<Rightarrow> None | Some f \<Rightarrow> obj_get f ''summary''))"


section \<open>Transition lookup\<close>

text \<open>A transition as the data model has it, \<open>{id, name, to: {name}}\<close>, and the dict the
  API returns for it.\<close>

record transition =
  tr_id :: string
  tr_name :: string
  tr_to_name :: string

definition transition_json :: "transition \<Rightarrow> json" where
  "transition_json t =
     JObj [(''id'', JStr (tr_id t)), (''name'', JStr (tr_name t)),
           (''to'', JObj [(''name'', JStr (tr_to_name t))])]"

text \<open>The search loop of \<open>transition_to\<close> in \<open>jira-transitions/scripts/workflow-demo.py\<close>:
  \<open>t['to']['name'].lower() == target_status.lower() or t['name'].lower() ==
  target_status.lower()\<close>, \<open>break\<close> on the first hit; \<open>JNull\<close> is the initial \<open>None\<close>.\<close>

fun transition_to_lookup :: "json list \<Rightarrow> string \<Rightarrow> py_exception + json" where
  "transition_to_lookup [] target_status = Inr JNull"
| "transition_to_lookup (t # ts) target_status =
     (case getitem t ''to'' of
        Inl e \<Rightarrow> Inl e
      | Inr to \<Rightarrow>
     (case getitem to ''name'' of
        Inl e \<Rightarrow> Inl e
      | Inr to_name \<Rightarrow>
     (case str_lower to_name of
        Inl e \<Rightarrow> Inl e
      | Inr l1 \<Rightarrow>
          if l1 = lower target_status then Inr t
          else
     (case getitem t ''name'' of
        Inl e \<Rightarrow> Inl e
      | Inr nm \<Rightarrow>
     (case str_lower nm of
        Inl e \<Rightarrow> Inl e
      | Inr l2 \<Rightarrow>
          if l2 = lower target_status then Inr t
          else transition_to_lookup ts target_status)))))"

text \<open>The search loop of \<open>transition_to_done\<close> in \<open>jira-agile/scripts/bulk-create.py\<close>:
  \<open>t['to']['name'].lower() == 'done'\<close> only.\<close>

fun transition_to_done_lookup :: "json list \<Rightarrow> py_exception + json" where
  "transition_to_done_lookup [] = Inr JNull"
| "transition_to_done_lookup (t # ts) =
     (case getitem t ''to'' of
        Inl e \<Rightarrow> Inl e
      | Inr to \<Rightarrow>
     (case getitem to ''name'' of
        Inl e \<Rightarrow> Inl e
      | Inr to_name \<Rightarrow>
     (case str_lower to_name of
        Inl e \<Rightarrow> Inl e
      | Inr l1 \<Rightarrow>
          if l1 = ''done'' then Inr t else transition_to_done_lookup ts)))"

text \<open>What the two loops read of an element of the list: the destination status name
  \<open>t['to']['name']\<close> and the display name \<open>t['name']\<close>, when they are there and are strings.
  An element that has both is a transition, whatever else it carries.\<close>

definition to_name_of :: "json \<Rightarrow> string option" where
  "to_name_of t =
     (case getitem t ''to'' of
        Inl e \<Rightarrow> None
      | Inr to \<Rightarrow> (case getitem to ''name'' of Inr (JStr s) \<Rightarrow> Some s | _ \<Rightarrow> None))"

definition name_of :: "json \<Rightarrow> string option" where
  "name_of t = (case getitem t ''name'' of Inr (JStr s) \<Rightarrow> Some s | _ \<Rightarrow> None)"

definition is_transition :: "json \<Rightarrow> bool" where
  "is_transition t \<longleftrightarrow> to_name_of t \<noteq> None \<and> name_of t \<noteq> None"

text \<open>The two tests of the claim: equal to the target up to case, on either name or on the
  destination status name alone.\<close>

definition matches_either :: "string \<Rightarrow> json \<Rightarrow> bool" where
  "matches_either target t \<longleftrightarrow>
     map_option lower (to_name_of t) = Some (lower target) \<or>
     map_option lower (name_of t) = Some (lower target)"

definition matches_destination :: "string \<Rightarrow> json \<Rightarrow> bool" where
  "matches_destination target t \<longleftrightarrow> map_option lower (to_name_of t) = Some (lower target)"

definition found :: "json option \<Rightarrow> json" where
  "found r = (case r of None \<Rightarrow> JNull | Some t \<Rightarrow> t)"


section \<open>Deleting issues and spaces\<close>

text \<open>\<open>delete_issue\<close> of \<open>jira-issues/scripts/delete-all.py\<close> sends its own request and
  answers a 404 with \<open>True\<close>; any other \<open>HTTPError\<close> is raised again.\<close>

definition delete_all_delete_issue ::
  "'w ctx \<Rightarrow> 'w io \<Rightarrow> string \<Rightarrow> bool \<Rightarrow> (py_exception + bool) \<times> 'w io" where
  "delete_all_delete_issue c st issue_key delete_subtasks =
     (let subtask_param = (if delete_subtasks then ''true'' else ''false'');
          path = ''/issue/'' @ issue_key @ ''?deleteSubtasks='' @ subtask_param
      in case urlopen c st
                \<lparr>req_method = ''DELETE'', req_url = JIRA_BASE_URL c @ ''/rest/api/3'' @ path,
                 req_body = None\<rparr> of
           (Responded status body, st') \<Rightarrow> (Inr (status = 204), st')
         | (RaisedHTTPError code error_body, st') \<Rightarrow>
             (if code = 404 then Inr True else Inl (HTTPError code error_body), st')
         | (RaisedURLError, st') \<Rightarrow> (Inl URLError, st'))"

text \<open>\<open>jira-spaces/scripts/delete-space.py\<close>. \<open>get_space\<close> turns every exception into
  \<open>None\<close>.\<close>

definition get_space :: "'w ctx \<Rightarrow> 'w io \<Rightarrow> string \<Rightarrow> json \<times> 'w io" where
  "get_space c st key =
     (case confluence_request c st (''/space/'' @ key @ ''?expand=description.plain'') ''GET'' JNull of
        (Inl e, st') \<Rightarrow> (JNull, st')
      | (Inr space, st') \<Rightarrow> (space, st'))"

definition delete_space :: "'w ctx \<Rightarrow> 'w io \<Rightarrow> string \<Rightarrow> (py_exception + json) \<times> 'w io" where
  "delete_space c st key = confluence_request c st (''/space/'' @ key) ''DELETE'' JNull"

text \<open>The subscripts a block of \<open>print\<close> calls evaluates, in order: the first that raises
  ends the block.\<close>

fun getitems :: "json \<Rightarrow> string list \<Rightarrow> py_exception + unit" where
  "getitems j [] = Inr ()"
| "getitems j (k # ks) = (case getitem j k of Inl e \<Rightarrow> Inl e | Inr v \<Rightarrow> getitems j ks)"

text \<open>
  \<open>main\<close> of \<open>delete-space.py\<close>, from the argument list \<open>sys.argv[1:]\<close> and the line typed at
  the prompt (\<open>None\<close> at end of input) to the exit code. \<open>sys.exit(n)\<close> gives \<open>n\<close>,
  an exception that nothing catches gives 1, the end of \<open>main\<close> gives 0.
\<close>

definition delete_space_main ::
  "'w ctx \<Rightarrow> 'w io \<Rightarrow> string list \<Rightarrow> string option \<Rightarrow> nat \<times> 'w io" where
  "delete_space_main c st args answer =
     (if length args < 1 \<or> ''--help'' \<in> set args \<or> ''-h'' \<in> set args
      then (if ''--help'' \<in> set args \<or> ''-h'' \<in> set args then 0 else 1, st)
      else
        let space_key = upper (args ! 0);
            skip_confirm = (''--confirm'' \<in> set args)
        in case get_space c st space_key of
             (space, st1) \<Rightarrow>
               if \<not> truthy space then (1, st1)
               else
                 (case getitems space [''key'', ''name'', ''type''] of
                    Inl e \<Rightarrow> (1, st1)
                  | Inr u \<Rightarrow>
                      (case (if skip_confirm then Inr True
                             else (case answer of
                                     None \<Rightarrow> Inl EOFError
                                   | Some a \<Rightarrow> Inr (lower a \<in> set [''y'', ''yes'']))) of
                         Inl e \<Rightarrow> (1, st1)
                       | Inr proceed \<Rightarrow>
                           if \<not> proceed then (0, st1)
                           else
                             (case delete_space c st1 space_key of
                                (Inl e, st2) \<Rightarrow> (1, st2)
                              | (Inr r, st2) \<Rightarrow> (0, st2)))))"


section \<open>Creating a space\<close>

text \<open>
  \<open>re.match(r'^[A-Z][A-Z0-9]*$', space_key)\<close>: one capital letter, then as many capital
  letters and digits as there are; \<open>$\<close> matches at the end of the string and also before a
  line feed that ends the string.
\<close>

definition is_capital :: "char \<Rightarrow> bool" where
  "is_capital ch \<longleftrightarrow> ch \<in> set ''ABCDEFGHIJKLMNOPQRSTUVWXYZ''"

definition is_capital_or_digit :: "char \<Rightarrow> bool" where
  "is_capital_or_digit ch \<longleftrightarrow> ch \<in> set ''ABCDEFGHIJKLMNOPQRSTUVWXYZ0123456789''"

definition space_key_match :: "string \<Rightarrow> bool" where
  "space_key_match s =
     (case s of
        [] \<Rightarrow> False
      | ch # rest \<Rightarrow>
          is_capital ch \<and>
          (let tail = dropWhile is_capital_or_digit rest in tail = [] \<or> tail = [CHR 0x0A]))"

definition create_space ::
  "'w ctx \<Rightarrow> 'w io \<Rightarrow> string \<Rightarrow> string \<Rightarrow> string \<Rightarrow> (py_exception + json) \<times> 'w io" where
  "create_space c st key name description =
     (let data0 = [(''key'', JStr (upper key)), (''name'', JStr name), (''type'', JStr ''global'')];
          data1 = (if description \<noteq> []
                   then data0 @
                     [(''description'',
                       JObj [(''plain'', JObj [(''value'', JStr description),
                                               (''representation'', JStr ''plain'')])])]
                   else data0)
      in confluence_request c st ''/space'' ''POST'' (JObj data1))"

definition create_space_main :: "'w ctx \<Rightarrow> 'w io \<Rightarrow> string list \<Rightarrow> nat \<times> 'w io" where
  "create_space_main c st args =
     (if length args < 2 \<or> ''--help'' \<in> set args \<or> ''-h'' \<in> set args
      then (if ''--help'' \<in> set args \<or> ''-h'' \<in> set args then 0 else 1, st)
      else
        let space_key = upper (args ! 0);
            space_name = args ! 1;
            description = (if length args > 2 then args ! 2 else [])
        in if \<not> space_key_match space_key then (1, st)
           else
             (case create_space c st space_key space_name description of
                (Inl e, st1) \<Rightarrow> (1, st1)
              | (Inr space, st1) \<Rightarrow>
                  (case getitems space [''key'', ''name'', ''type'', ''id'', ''key'', ''key''] of
                     Inl e \<Rightarrow> (1, st1)
                   | Inr u \<Rightarrow> (0, st1))))"


section \<open>The bulk-create loop of \<open>jira-agile/scripts/bulk-create.py\<close>\<close>

definition get_transitions :: "'w ctx \<Rightarrow> 'w io \<Rightarrow> json \<Rightarrow> (py_exception + json) \<times> 'w io" where
  "get_transitions c st issue_key =
     (case make_request c st ''GET'' (''/issue/'' @ format_value c issue_key @ ''/transitions'') JNull of
        (Inl e, st') \<Rightarrow> (Inl e, st')
      | (Inr result, st') \<Rightarrow> (getitem result ''transitions'', st'))"

definition transition_to_done :: "'w ctx \<Rightarrow> 'w io \<Rightarrow> json \<Rightarrow> (py_exception + bool) \<times> 'w io" where
  "transition_to_done c st issue_key =
     (case get_transitions c st issue_key of
        (Inl e, st1) \<Rightarrow> (Inl e, st1)
      | (Inr transitions, st1) \<Rightarrow>
     (case py_iter transitions of
        Inl e \<Rightarrow> (Inl e, st1)
      | Inr ts \<Rightarrow>
     (case transition_to_done_lookup ts of
        Inl e \<Rightarrow> (Inl e, st1)
      | Inr done_transition \<Rightarrow>
          if truthy done_transition then
            (case getitem done_transition ''id'' of
               Inl e \<Rightarrow> (Inl e, st1)
             | Inr tid \<Rightarrow>
                 (case make_request c st1 ''POST''
                         (''/issue/'' @ format_value c issue_key @ ''/transitions'')
                         (JObj [(''transition'', JObj [(''id'', tid)])]) of
                    (Inl e, st2) \<Rightarrow> (Inl e, st2)
                  | (Inr r, st2) \<Rightarrow> (Inr True, st2)))
          else (Inr False, st1))))"

text \<open>The \<open>try\<close> block of the inner loop: create the issue, read its key for the message,
  move it to Done. \<open>Inl\<close> is an exception on the way to the \<open>except Exception\<close> clause.\<close>

definition try_commit :: "'w ctx \<Rightarrow> 'w io \<Rightarrow> string \<Rightarrow> (py_exception + unit) \<times> 'w io" where
  "try_commit c st commit_msg =
     (case bulk_create_issue c st commit_msg ''Story'' of
        (Inl e, st1) \<Rightarrow> (Inl e, st1)
      | (Inr issue, st1) \<Rightarrow>
     (case getitem issue ''key'' of
        Inl e \<Rightarrow> (Inl e, st1)
      | Inr key \<Rightarrow>
     (case transition_to_done c st1 key of
        (Inl e, st2) \<Rightarrow> (Inl e, st2)
      | (Inr moved, st2) \<Rightarrow> (Inr (), st2))))"

text \<open>The state of \<open>main\<close>: the two counters, the batches the outer loop has taken so far
  (one entry for each "Processing batch" line), and the run.\<close>

record 'w tally =
  created :: nat
  failed :: nat
  batch_log :: "string list list"
  run :: "'w io"

definition process_commit :: "'w ctx \<Rightarrow> 'w tally \<Rightarrow> string \<Rightarrow> 'w tally" where
  "process_commit c t commit_msg =
     (case try_commit c (run t) commit_msg of
        (Inr u, st') \<Rightarrow> t\<lparr>created := created t + 1, run := st'\<rparr>
      | (Inl e, st') \<Rightarrow> t\<lparr>failed := failed t + 1, run := st'\<rparr>)"

definition batch_size :: nat where
  "batch_size = 5"

text \<open>\<open>for i in range(0, len(commits), batch_size)\<close> with \<open>batch = commits[i:i +
  batch_size]\<close>.\<close>

function batch_loop :: "'w ctx \<Rightarrow> string list \<Rightarrow> nat \<Rightarrow> 'w tally \<Rightarrow> 'w tally" where
  "batch_loop c commits i t =
     (if i < length commits
      then let batch = take batch_size (drop i commits);
               t1 = t\<lparr>batch_log := batch_log t @ [batch]\<rparr>;
               t2 = foldl (process_commit c) t1 batch
           in batch_loop c commits (i + batch_size) t2
      else t)"
  by pat_completeness auto
termination
  by (relation "measure (\<lambda>(c, commits, i, t). length commits - i)") (auto simp: batch_size_def)

declare batch_loop.simps [simp del]

definition bulk_create_main :: "'w ctx \<Rightarrow> 'w io \<Rightarrow> string list \<Rightarrow> 'w tally" where
  "bulk_create_main c st commits =
     (if commits = [] then \<lparr>created = 0, failed = 0, batch_log = [], run = st\<rparr>
      else batch_loop c commits 0 \<lparr>created = 0, failed = 0, batch_log = [], run = st\<rparr>)"

text \<open>The request \<open>create_issue\<close> sends for a commit message.\<close>

definition create_request :: "'w ctx \<Rightarrow> string \<Rightarrow> request" where
  "create_request c commit_msg =
     \<lparr>req_method = ''POST'', req_url = JIRA_BASE_URL c @ ''/rest/api/3/issue'',
      req_body = Some (JObj [(''fields'',
        JObj [(''project'', JObj [(''key'', JStr (PROJECT_KEY c))]),
              (''issuetype'', JObj [(''name'', JStr ''Story'')]),
              (''summary'', JStr (take 255 commit_msg))])])\<rparr>"

definition is_create_request :: "'w ctx \<Rightarrow> request \<Rightarrow> bool" where
  "is_create_request c r \<longleftrightarrow>
     req_method r = ''POST'' \<and> req_url r = JIRA_BASE_URL c @ ''/rest/api/3/issue''"


section \<open>Notions the claims are stated with\<close>

text \<open>A variable that \<open>get_config\<close> treats as missing: not set, or set to the empty
  string.\<close>

definition absent_or_empty :: "string option \<Rightarrow> bool" where
  "absent_or_empty v \<longleftrightarrow> v = None \<or> v = Some []"

text \<open>The blocks one section stands for: one for each of its keys among heading,
  paragraph, bullets and code, in that order, each with the text of its key.\<close>

definition section_blocks :: "section_spec \<Rightarrow> json list" where
  "section_blocks s =
     (case sec_heading s of
        None \<Rightarrow> []
      | Some h \<Rightarrow> [heading_node (case sec_level s of None \<Rightarrow> 2 | Some l \<Rightarrow> l) h]) @
     (case sec_paragraph s of None \<Rightarrow> [] | Some p \<Rightarrow> [paragraph_node p]) @
     (case sec_bullets s of None \<Rightarrow> [] | Some bs \<Rightarrow> [bullet_list_node bs]) @
     (case sec_code s of
        None \<Rightarrow> []
      | Some cd \<Rightarrow> [code_block_node (case sec_language s of None \<Rightarrow> ''text'' | Some l \<Rightarrow> l) cd])"

text \<open>The two \<open>DELETE\<close> requests.\<close>

definition delete_issue_request :: "'w ctx \<Rightarrow> string \<Rightarrow> bool \<Rightarrow> request" where
  "delete_issue_request c issue_key delete_subtasks =
     \<lparr>req_method = ''DELETE'',
      req_url = JIRA_BASE_URL c @ ''/rest/api/3/issue/'' @ issue_key @ ''?deleteSubtasks='' @
                (if delete_subtasks then ''true'' else ''false''),
      req_body = None\<rparr>"

definition delete_space_request :: "'w ctx \<Rightarrow> string \<Rightarrow> request" where
  "delete_space_request c key =
     \<lparr>req_method = ''DELETE'', req_url = JIRA_BASE_URL c @ ''/wiki/rest/api/space/'' @ key,
      req_body = None\<rparr>"

text \<open>The confirmation \<open>main\<close> of delete-space.py accepts: the flag, or \<open>y\<close> or \<open>yes\<close> in any
  case at the prompt.\<close>

definition confirmed :: "string list \<Rightarrow> string option \<Rightarrow> bool" where
  "confirmed args answer \<longleftrightarrow>
     ''--confirm'' \<in> set args \<or>
     (case answer of None \<Rightarrow> False | Some a \<Rightarrow> lower a = ''y'' \<or> lower a = ''yes'')"

text \<open>The items of a list processed one after the other, with no batches: for each item
  whether its \<open>try\<close> block raises, run from where the item before it left the remote side;
  and the run after the last item.\<close>

fun item_errors :: "'w ctx \<Rightarrow> 'w io \<Rightarrow> string list \<Rightarrow> bool list" where
  "item_errors c st [] = []"
| "item_errors c st (m # ms) =
     isl (fst (try_commit c st m)) # item_errors c (snd (try_commit c st m)) ms"

fun after_items :: "'w ctx \<Rightarrow> 'w io \<Rightarrow> string list \<Rightarrow> 'w io" where
  "after_items c st [] = st"
| "after_items c st (m # ms) = after_items c (snd (try_commit c st m)) ms"

text \<open>The sizes of consecutive batches of five over \<open>n\<close> items: full batches, then the
  remainder when there is one.\<close>

definition batch_sizes :: "nat \<Rightarrow> nat list" where
  "batch_sizes n = replicate (n div 5) 5 @ (if n mod 5 = 0 then [] else [n mod 5])"


section \<open>Scenarios\<close>

text \<open>Concrete runs at which the theorems below are instantiated. A scenario fixes the
  answers of the remote side and the table of bodies \<open>json.loads\<close> is asked to parse, each
  with the value it parses to; a body outside the table is not JSON in that scenario (the
  empty body of a 204 answer never is).\<close>

definition start :: "'w \<Rightarrow> 'w io" where
  "start w = \<lparr>world = w, sent = []\<rparr>"

text \<open>No network: every request ends in \<open>URLError\<close>.\<close>

definition offline :: "unit ctx" where
  "offline =
     \<lparr>json_loads = map_of [], py_str = (\<lambda>j. ''None''),
      remote = (\<lambda>w r. (RaisedURLError, w)),
      JIRA_BASE_URL = ''https://example.atlassian.net'', PROJECT_KEY = ''SCRUM''\<rparr>"

text \<open>A space that is there when looked up and gone when deleted: every \<open>DELETE\<close> is
  answered 404.\<close>

definition space_body :: string where
  \<open>space_body = ''{"key": "DOCS", "name": "Docs", "type": "global"}''\<close>

definition space_value :: json where
  "space_value =
     JObj [(''key'', JStr ''DOCS''), (''name'', JStr ''Docs''), (''type'', JStr ''global'')]"

definition vanished_space :: "unit ctx" where
  "vanished_space =
     \<lparr>json_loads = map_of [(space_body, space_value)], py_str = (\<lambda>j. ''None''),
      remote = (\<lambda>w r. if req_method r = ''DELETE''
                        then (RaisedHTTPError 404 ''No space with the given key'', w)
                        else (Responded 200 space_body, w)),
      JIRA_BASE_URL = ''https://example.atlassian.net'', PROJECT_KEY = ''SCRUM''\<rparr>"

text \<open>Issue creation works and every other request is answered 500; the remote state
  counts the issues created.\<close>

definition issue_body :: string where
  \<open>issue_body = ''{"id": "10001", "key": "SCRUM-1"}''\<close>

definition issue_value :: json where
  "issue_value = JObj [(''id'', JStr ''10001''), (''key'', JStr ''SCRUM-1'')]"

definition transitions_down :: "nat ctx" where
  "transitions_down =
     \<lparr>json_loads = map_of [(issue_body, issue_value)], py_str = (\<lambda>j. ''None''),
      remote = (\<lambda>w r. if req_method r = ''POST'' \<and>
                          req_url r = ''https://example.atlassian.net/rest/api/3/issue''
                        then (Responded 201 issue_body, Suc w)
                        else (RaisedHTTPError 500 ''Internal Server Error'', w)),
      JIRA_BASE_URL = ''https://example.atlassian.net'', PROJECT_KEY = ''SCRUM''\<rparr>"

text \<open>Nothing exists remotely: every request is answered 404.\<close>

definition nothing_there :: "unit ctx" where
  "nothing_there =
     \<lparr>json_loads = map_of [], py_str = (\<lambda>j. ''None''),
      remote = (\<lambda>w r. (RaisedHTTPError 404 ''Not Found'', w)),
      JIRA_BASE_URL = ''https://example.atlassian.net'', PROJECT_KEY = ''SCRUM''\<rparr>"

text \<open>The remote side rejects the issue whose summary is \<open>c2\<close> with 400 and creates every
  other; an issue has no transitions; the remote state counts the issues created.\<close>

definition no_transitions_body :: string where
  \<open>no_transitions_body = ''{"transitions": []}''\<close>

definition rejects_c2 :: "nat ctx" where
  "rejects_c2 =
     \<lparr>json_loads = map_of [(issue_body, issue_value),
                           (no_transitions_body, JObj [(''transitions'', JArr [])])],
      py_str = (\<lambda>j. ''None''),
      remote = (\<lambda>w r. if req_method r = ''POST'' \<and>
                          req_url r = ''https://example.atlassian.net/rest/api/3/issue''
                        then (if sent_summary r = Some (JStr ''c2'')
                              then (RaisedHTTPError 400 ''Bad Request'', w)
                              else (Responded 201 issue_body, Suc w))
                        else (Responded 200 no_transitions_body, w)),
      JIRA_BASE_URL = ''https://example.atlassian.net'', PROJECT_KEY = ''SCRUM''\<rparr>"

text \<open>The three transitions of the end-to-end scenario.\<close>

definition workflow :: "transition list" where
  "workflow =
     [\<lparr>tr_id = ''11'', tr_name = ''Start'', tr_to_name = ''Progressing''\<rparr>,
      \<lparr>tr_id = ''21'', tr_name = ''Close'', tr_to_name = ''Done''\<rparr>,
      \<lparr>tr_id = ''31'', tr_name = ''Reopen'', tr_to_name = ''To Do''\<rparr>]"

text \<open>The sections of the example in the docstring of \<open>build_adf\<close>.\<close>

definition no_keys :: section_spec where
  "no_keys =
     \<lparr>sec_heading = None, sec_level = None, sec_paragraph = None, sec_bullets = None,
      sec_code = None, sec_language = None\<rparr>"

definition docstring_sections :: "section_spec list" where
  "docstring_sections =
     [no_keys\<lparr>sec_heading := Some ''Overview''\<rparr>,
      no_keys\<lparr>sec_paragraph := Some ''This is the overview text.''\<rparr>,
      no_keys\<lparr>sec_heading := Some ''Steps'', sec_level := Some 3\<rparr>,
      no_keys\<lparr>sec_bullets := Some [''Step 1'', ''Step 2'', ''Step 3'']\<rparr>,
      no_keys\<lparr>sec_code := Some ''console.log(1)'', sec_language := Some ''javascript''\<rparr>]"


section \<open>Properties of the ADF builder\<close>

lemma append_section_blocks: "append_section content s = content @ section_blocks s"
  by (simp add: append_section_def section_blocks_def split: option.splits)

lemma foldl_append_section_blocks:
  "foldl append_section content sections = content @ concat (map section_blocks sections)"
  by (induction sections arbitrary: content) (simp_all add: append_section_blocks)

lemma node_type_section_blocks: "map node_type (section_blocks s) = map Some (block_kinds s)"
  by (simp add: section_blocks_def block_kinds_def node_type_def heading_node_def
      paragraph_node_def bullet_list_node_def code_block_node_def
      split: option.splits)

lemma length_section_blocks: "length (section_blocks s) = keys_present s"
  by (simp add: section_blocks_def keys_present_def split: option.splits)

lemma length_concat_section_blocks:
  "length (concat (map section_blocks sections)) = sum_list (map keys_present sections)"
  by (induction sections) (simp_all add: length_section_blocks)

lemma node_type_concat_section_blocks:
  "map node_type (concat (map section_blocks sections)) =
     map Some (concat (map block_kinds sections))"
  by (induction sections) (simp_all add: node_type_section_blocks)

text \<open>
  C1. For every list of sections, the \<open>content\<close> list of the document that \<open>build_adf\<close>
  returns is the blocks of the first section, then the blocks of the second, and so on to
  the last, the blocks of one section being one for each of its keys among heading,
  paragraph, bullets and code, in that order and with the text of the key. So the list has
  as many blocks as the sections have such keys, and the block types follow section order
  and, within a section, the order heading, paragraph, bulletList, codeBlock.
\<close>

theorem build_adf_content_order:
  "obj_get (build_adf sections) ''content'' = Some (JArr (concat (map section_blocks sections)))
   \<and> length (concat (map section_blocks sections)) = sum_list (map keys_present sections)
   \<and> map node_type (concat (map section_blocks sections)) =
       map Some (concat (map block_kinds sections))"
proof -
  have "obj_get (build_adf sections) ''content'' =
          Some (JArr (foldl append_section [] sections))"
    by (simp add: build_adf_def)
  then have "obj_get (build_adf sections) ''content'' =
          Some (JArr (concat (map section_blocks sections)))"
    by (simp add: foldl_append_section_blocks)
  then show ?thesis
    by (simp add: length_concat_section_blocks node_type_concat_section_blocks)
qed

text \<open>C1 at the example of the docstring: five sections with one key each give five
  blocks, in the order written; the two headings keep their places and their texts.\<close>

theorem build_adf_content_order_witness:
  "obj_get (build_adf docstring_sections) ''content'' =
     Some (JArr [heading_node 2 ''Overview'',
                 paragraph_node ''This is the overview text.'',
                 heading_node 3 ''Steps'',
                 bullet_list_node [''Step 1'', ''Step 2'', ''Step 3''],
                 code_block_node ''javascript'' ''console.log(1)''])
   \<and> sum_list (map keys_present docstring_sections) = 5
   \<and> concat (map block_kinds docstring_sections) =
       [''heading'', ''paragraph'', ''heading'', ''bulletList'', ''codeBlock'']"
proof -
  have b: "concat (map section_blocks docstring_sections) =
      [heading_node 2 ''Overview'', paragraph_node ''This is the overview text.'',
       heading_node 3 ''Steps'', bullet_list_node [''Step 1'', ''Step 2'', ''Step 3''],
       code_block_node ''javascript'' ''console.log(1)'']"
    by (simp add: docstring_sections_def no_keys_def section_blocks_def)
  have n: "sum_list (map keys_present docstring_sections) = 5"
    by (simp add: docstring_sections_def no_keys_def keys_present_def)
  have k: "concat (map block_kinds docstring_sections) =
      [''heading'', ''paragraph'', ''heading'', ''bulletList'', ''codeBlock'']"
    by (simp add: docstring_sections_def no_keys_def block_kinds_def)
  from build_adf_content_order [of docstring_sections] b n k show ?thesis
    by simp
qed

text \<open>Two sections with a paragraph each: the paragraph of the first section comes
  first.\<close>

lemma build_adf_two_paragraphs:
  "obj_get (build_adf [no_keys\<lparr>sec_paragraph := Some ''A''\<rparr>, no_keys\<lparr>sec_paragraph := Some ''B''\<rparr>])
     ''content'' = Some (JArr [paragraph_node ''A'', paragraph_node ''B''])"
  by (simp add: build_adf_def append_section_def no_keys_def)


section \<open>Transition lookup\<close>

lemma lower_done: "lower ''done'' = ''done''"
  by (simp add: lower_def lower_char_def capitals_def smalls_def)

lemma transition_to_lookup_found:
  "\<forall>t\<in>set ts. is_transition t \<Longrightarrow>
     transition_to_lookup ts target = Inr (found (find (matches_either target) ts))"
proof (induction ts)
  case Nil
  then show ?case by (simp add: found_def)
next
  case (Cons t ts)
  from Cons.prems have "is_transition t" by simp
  then obtain to a b where
    t: "getitem t ''to'' = Inr to" "getitem to ''name'' = Inr (JStr a)"
       "getitem t ''name'' = Inr (JStr b)"
    by (auto simp: is_transition_def to_name_of_def name_of_def
        split: sum.splits json.splits)
  then have n: "to_name_of t = Some a" "name_of t = Some b"
    by (simp_all add: to_name_of_def name_of_def)
  from Cons.IH Cons.prems
  have IH: "transition_to_lookup ts target = Inr (found (find (matches_either target) ts))"
    by simp
  have m: "matches_either target t \<longleftrightarrow> lower a = lower target \<or> lower b = lower target"
    using n by (simp add: matches_either_def)
  show ?case
    using t IH m by (auto simp: found_def)
qed

lemma transition_to_done_lookup_found:
  "\<forall>t\<in>set ts. to_name_of t \<noteq> None \<Longrightarrow>
     transition_to_done_lookup ts = Inr (found (find (matches_destination ''done'') ts))"
proof (induction ts)
  case Nil
  then show ?case by (simp add: found_def)
next
  case (Cons t ts)
  from Cons.prems have "to_name_of t \<noteq> None" by simp
  then obtain to a where
    t: "getitem t ''to'' = Inr to" "getitem to ''name'' = Inr (JStr a)"
    by (auto simp: to_name_of_def split: sum.splits json.splits)
  then have n: "to_name_of t = Some a"
    by (simp add: to_name_of_def)
  from Cons.IH Cons.prems
  have IH: "transition_to_done_lookup ts = Inr (found (find (matches_destination ''done'') ts))"
    by simp
  have m: "matches_destination ''done'' t \<longleftrightarrow> lower a = ''done''"
    using n by (simp add: matches_destination_def lower_done)
  show ?case
    using t IH m by (auto simp: found_def)
qed

lemma transition_json_names:
  "to_name_of (transition_json t) = Some (tr_to_name t)"
  "name_of (transition_json t) = Some (tr_name t)"
  "is_transition (transition_json t)"
  by (simp_all add: transition_json_def to_name_of_def name_of_def is_transition_def)

text \<open>
  C2, as the code has it. On every list of transitions (objects that carry a destination
  status name and a display name, and whatever else) and every target, the lookup of
  \<open>transition_to\<close> (workflow-demo.py) returns the first element, in list order, whose
  destination status name or display name equals the target up to case, and \<open>None\<close> when
  there is none. The lookup of \<open>transition_to_done\<close> (bulk-create.py) has the fixed target
  \<open>done\<close> and compares the destination status name only: it returns the first element
  whose destination status name is \<open>done\<close> up to case, and \<open>None\<close> when there is none.
  (\<^const>\<open>find\<close> is the first element of the list that satisfies the test.)
\<close>

theorem transition_lookups:
  "((\<forall>t\<in>set ts. is_transition t) \<longrightarrow>
      transition_to_lookup ts target = Inr (found (find (matches_either target) ts)))
   \<and> ((\<forall>t\<in>set ts. to_name_of t \<noteq> None) \<longrightarrow>
      transition_to_done_lookup ts = Inr (found (find (matches_destination ''done'') ts)))"
  using transition_to_lookup_found [of ts target] transition_to_done_lookup_found [of ts]
  by blast

text \<open>C2 at the three transitions of the scenario and the target \<open>Done\<close>: both lookups
  return the transition with id 21.\<close>

theorem transition_lookups_witness:
  "transition_to_lookup (map transition_json workflow) ''Done'' =
     Inr (transition_json \<lparr>tr_id = ''21'', tr_name = ''Close'', tr_to_name = ''Done''\<rparr>)
   \<and> transition_to_done_lookup (map transition_json workflow) =
     Inr (transition_json \<lparr>tr_id = ''21'', tr_name = ''Close'', tr_to_name = ''Done''\<rparr>)"
proof -
  have wf: "\<forall>t\<in>set (map transition_json workflow). is_transition t"
           "\<forall>t\<in>set (map transition_json workflow). to_name_of t \<noteq> None"
    by (auto simp: transition_json_names)
  have f: "find (matches_either ''Done'') (map transition_json workflow) =
             Some (transition_json \<lparr>tr_id = ''21'', tr_name = ''Close'', tr_to_name = ''Done''\<rparr>)"
          "find (matches_destination ''done'') (map transition_json workflow) =
             Some (transition_json \<lparr>tr_id = ''21'', tr_name = ''Close'', tr_to_name = ''Done''\<rparr>)"
    by (simp_all add: workflow_def matches_either_def matches_destination_def
        transition_json_names lower_def lower_char_def capitals_def smalls_def)
  from transition_lookups [of "map transition_json workflow" "''Done''"] wf f
  show ?thesis by (simp add: found_def)
qed

text \<open>Case is folded beyond ASCII as Python folds it: the status \<open>TERMIN\<close> with a capital E
  acute is found under the target written in small letters.\<close>

lemma transition_to_lookup_latin1:
  "transition_to_lookup
     [transition_json \<lparr>tr_id = ''51'', tr_name = ''Finish'',
                       tr_to_name = ''TERMIN'' @ [CHR 0xC9]\<rparr>] (''termin'' @ [CHR 0xE9]) =
     Inr (transition_json \<lparr>tr_id = ''51'', tr_name = ''Finish'',
                           tr_to_name = ''TERMIN'' @ [CHR 0xC9]\<rparr>)"
  by (simp add: transition_json_def lower_def lower_char_def capitals_def smalls_def)

text \<open>C2 as stated fails for \<open>transition_to_done\<close>: a transition named \<open>Done\<close> that leads
  to the status \<open>Closed\<close> matches the target \<open>Done\<close> by its display name, \<open>transition_to\<close>
  finds it, and \<open>transition_to_done\<close> finds nothing.\<close>

theorem transition_to_done_name_counterexample:
  "transition_to_done_lookup
     [transition_json \<lparr>tr_id = ''41'', tr_name = ''Done'', tr_to_name = ''Closed''\<rparr>] = Inr JNull
   \<and> find (matches_either ''Done'')
       [transition_json \<lparr>tr_id = ''41'', tr_name = ''Done'', tr_to_name = ''Closed''\<rparr>] =
     Some (transition_json \<lparr>tr_id = ''41'', tr_name = ''Done'', tr_to_name = ''Closed''\<rparr>)
   \<and> transition_to_lookup
     [transition_json \<lparr>tr_id = ''41'', tr_name = ''Done'', tr_to_name = ''Closed''\<rparr>] ''Done'' =
     Inr (transition_json \<lparr>tr_id = ''41'', tr_name = ''Done'', tr_to_name = ''Closed''\<rparr>)"
  by (simp add: transition_json_def matches_either_def to_name_of_def name_of_def
      lower_def lower_char_def capitals_def smalls_def)


section \<open>Requests sent\<close>

lemma upper_char_idem: "concat (map upper_char (upper_char ch)) = upper_char ch"
  by (simp add: upper_char_def capitals_def smalls_def)

lemma upper_idem: "upper (upper s) = upper s"
  by (induction s) (simp_all add: upper_def upper_char_idem)

lemma sent_make_request:
  "sent (snd (make_request c st m p d)) =
     sent st @ [\<lparr>req_method = m, req_url = JIRA_BASE_URL c @ ''/rest/api/3'' @ p,
                 req_body = body_of d\<rparr>]"
  by (simp add: make_request_def urlopen_def split: prod.splits)

lemma sent_jira_request:
  "sent (snd (jira_request c st b p m d)) =
     sent st @ [\<lparr>req_method = m, req_url = b @ ''/rest/api/3'' @ p, req_body = body_of d\<rparr>]"
  by (simp add: jira_request_def urlopen_def split: prod.splits)

lemma sent_confluence_request:
  "sent (snd (confluence_request c st p m d)) =
     sent st @ [\<lparr>req_method = m, req_url = JIRA_BASE_URL c @ ''/wiki/rest/api'' @ p,
                 req_body = body_of d\<rparr>]"
  by (simp add: confluence_request_def urlopen_def split: prod.splits)

lemma make_request_sent:
  "make_request c st m p d = (r, st') \<Longrightarrow>
     sent st' = sent st @ [\<lparr>req_method = m, req_url = JIRA_BASE_URL c @ ''/rest/api/3'' @ p,
                           req_body = body_of d\<rparr>]"
  using sent_make_request [of c st m p d] by simp


section \<open>Deleting what is already gone\<close>

lemma delete_issue_404:
  assumes "remote c (world st) (delete_issue_request c issue_key delete_subtasks) =
             (RaisedHTTPError 404 body, w')"
  shows "delete_all_delete_issue c st issue_key delete_subtasks =
           (Inr True, \<lparr>world = w', sent = sent st @ [delete_issue_request c issue_key delete_subtasks]\<rparr>)"
  using assms
  by (simp add: delete_all_delete_issue_def delete_issue_request_def urlopen_def Let_def)

lemma delete_space_404:
  assumes "remote c (world st) (delete_space_request c key) = (RaisedHTTPError 404 body, w')"
  shows "delete_space c st key =
           (Inl (Exception (str_nat 404 @ '': '' @ take 300 body)),
            \<lparr>world = w', sent = sent st @ [delete_space_request c key]\<rparr>)"
  using assms
  by (simp add: delete_space_def delete_space_request_def confluence_request_def urlopen_def
      body_of_def confluence_request_result_def)

lemma delete_space_main_404:
  assumes args: "args \<noteq> []" "''--help'' \<notin> set args" "''-h'' \<notin> set args"
    and ok: "confirmed args answer"
    and found: "get_space c st0 (upper (args ! 0)) = (space, st1)" "truthy space"
               "getitems space [''key'', ''name'', ''type''] = Inr ()"
    and gone: "remote c (world st1) (delete_space_request c (upper (args ! 0))) =
                 (RaisedHTTPError 404 body, w2)"
  shows "delete_space_main c st0 args answer =
           (1, \<lparr>world = w2, sent = sent st1 @ [delete_space_request c (upper (args ! 0))]\<rparr>)"
proof -
  have proceed: "(if ''--confirm'' \<in> set args then Inr True
                  else (case answer of
                          None \<Rightarrow> Inl EOFError
                        | Some a \<Rightarrow> Inr (lower a \<in> set [''y'', ''yes'']))) = Inr True"
    using ok by (auto simp: confirmed_def split: option.splits)
  show ?thesis
    using args found
    by (simp add: delete_space_main_def Let_def proceed delete_space_404 [OF gone])
qed

text \<open>
  C3, as the code has it. When the \<open>DELETE\<close> request for an issue is answered 404,
  \<open>delete_issue\<close> of delete-all.py returns \<open>True\<close>, with or without subtasks. When \<open>main\<close> of
  delete-space.py has found the space, has its confirmation (the flag, or yes at the
  prompt), and the \<open>DELETE\<close> request for the space is answered 404, it exits with code 1.
\<close>

theorem delete_on_404:
  "(remote c (world st) (delete_issue_request c issue_key delete_subtasks) =
        (RaisedHTTPError 404 body, w') \<longrightarrow>
      delete_all_delete_issue c st issue_key delete_subtasks =
        (Inr True,
         \<lparr>world = w', sent = sent st @ [delete_issue_request c issue_key delete_subtasks]\<rparr>))
   \<and> (args \<noteq> [] \<and> ''--help'' \<notin> set args \<and> ''-h'' \<notin> set args \<and> upper_in_model (args ! 0)
        \<and> confirmed args answer
        \<and> get_space c2 st0 (upper (args ! 0)) = (space, st1) \<and> truthy space
        \<and> getitems space [''key'', ''name'', ''type''] = Inr ()
        \<and> remote c2 (world st1) (delete_space_request c2 (upper (args ! 0))) =
            (RaisedHTTPError 404 body2, w2) \<longrightarrow>
      delete_space_main c2 st0 args answer =
        (1, \<lparr>world = w2, sent = sent st1 @ [delete_space_request c2 (upper (args ! 0))]\<rparr>))"
  using delete_issue_404 [of c st issue_key delete_subtasks body w']
    delete_space_main_404 [of args answer c2 st0 space st1 body2 w2]
  by blast

text \<open>C3 where nothing exists remotely (both ways of deleting an issue succeed), and at the
  space that vanishes between lookup and delete (with the flag, and with \<open>YES\<close> typed at the
  prompt, the run ends with code 1).\<close>

theorem delete_on_404_witness:
  "fst (delete_all_delete_issue nothing_there (start ()) ''SCRUM-7'' True) = Inr True
   \<and> fst (delete_all_delete_issue nothing_there (start ()) ''SCRUM-7'' False) = Inr True
   \<and> fst (delete_space_main vanished_space (start ()) [''docs'', ''--confirm''] None) = 1
   \<and> fst (delete_space_main vanished_space (start ()) [''docs''] (Some ''YES'')) = 1"
proof -
  let ?st1 = "\<lparr>world = (), sent = [\<lparr>req_method = ''GET'',
          req_url = ''https://example.atlassian.net/wiki/rest/api/space/DOCS?expand=description.plain'',
          req_body = None\<rparr>]\<rparr>"
  have u: "upper ''docs'' = ''DOCS''"
    by (simp add: upper_def upper_char_def capitals_def smalls_def)
  have a: "remote nothing_there (world (start ())) (delete_issue_request nothing_there ''SCRUM-7'' ds) =
             (RaisedHTTPError 404 ''Not Found'', ())" for ds
    by (simp add: nothing_there_def)
  have g: "get_space vanished_space (start ()) ''DOCS'' = (space_value, ?st1)"
    by (simp add: vanished_space_def start_def get_space_def confluence_request_def
        confluence_request_result_def urlopen_def parse_json_def body_of_def)
  have s: "truthy space_value" "getitems space_value [''key'', ''name'', ''type''] = Inr ()"
    by (simp_all add: space_value_def)
  have d: "remote vanished_space (world ?st1) (delete_space_request vanished_space ''DOCS'') =
             (RaisedHTTPError 404 ''No space with the given key'', ())"
    by (simp add: vanished_space_def delete_space_request_def)
  have c1: "confirmed [''docs'', ''--confirm''] None" "confirmed [''docs''] (Some ''YES'')"
    by (simp_all add: confirmed_def lower_def lower_char_def capitals_def smalls_def)
  have m: "upper_in_model ''docs''"
    by (simp add: upper_in_model_def)
  show ?thesis
    using delete_on_404 [of nothing_there "start ()" "''SCRUM-7''" True "''Not Found''" "()"
        "[''docs'', ''--confirm'']" None vanished_space "start ()" space_value ?st1
        "''No space with the given key''" "()"]
      delete_on_404 [of nothing_there "start ()" "''SCRUM-7''" False "''Not Found''" "()"
        "[''docs'']" "Some ''YES''" vanished_space "start ()" space_value ?st1
        "''No space with the given key''" "()"]
      u a g s d c1 m
    by simp
qed

text \<open>C3 as stated fails for the space: the run of delete-space.py whose \<open>DELETE\<close> is
  answered 404 ends with exit code 1, having sent the lookup and the delete.\<close>

theorem delete_space_404_counterexample:
  "delete_space_main vanished_space (start ()) [''docs'', ''--confirm''] None =
     (1, \<lparr>world = (),
          sent = [\<lparr>req_method = ''GET'',
                   req_url = ''https://example.atlassian.net/wiki/rest/api/space/DOCS?expand=description.plain'',
                   req_body = None\<rparr>,
                  \<lparr>req_method = ''DELETE'',
                   req_url = ''https://example.atlassian.net/wiki/rest/api/space/DOCS'',
                   req_body = None\<rparr>]\<rparr>)"
  by (simp add: delete_space_main_def vanished_space_def start_def get_space_def
      confluence_request_def confluence_request_result_def urlopen_def parse_json_def
      space_body_def space_value_def body_of_def delete_space_def upper_def upper_char_def
      capitals_def smalls_def Let_def)



section \<open>The summary of a new issue\<close>

text \<open>
  C4, as the code has it. For a summary of more than 255 characters, \<open>create_issue\<close> of
  bulk-create.py sends to \<open>/issue\<close> a body whose summary is the first 255 characters, and
  that is exactly 255 characters; \<open>create_issue\<close> of create-one.py, and \<open>create_epic\<close>,
  \<open>create_story\<close> and \<open>create_subtask\<close> of the template, send the summary as it is.
\<close>

theorem summary_in_create_body:
  assumes "255 < length summary"
  shows "sent_summary (last (sent (snd (bulk_create_issue c st summary issue_type)))) =
           Some (JStr (take 255 summary))
       \<and> length (take 255 summary) = 255
       \<and> req_url (last (sent (snd (bulk_create_issue c st summary issue_type)))) =
           JIRA_BASE_URL c @ ''/rest/api/3/issue''
       \<and> sent_summary (last (sent (snd (create_one_create_issue c st summary issue_type d p)))) =
           Some (JStr summary)
       \<and> sent_summary (last (sent (snd (create_epic c st b k summary secs)))) = Some (JStr summary)
       \<and> sent_summary (last (sent (snd (create_story c st b k summary secs epic labels)))) =
           Some (JStr summary)
       \<and> sent_summary (last (sent (snd (create_subtask c st b k parent summary)))) =
           Some (JStr summary)"
proof -
  have bulk: "sent_summary (last (sent (snd (bulk_create_issue c st summary issue_type)))) =
      Some (JStr (take 255 summary))"
    by (simp add: bulk_create_issue_def sent_make_request sent_summary_def body_of_def)
  have len: "length (take 255 summary) = 255"
    using assms by simp
  have url: "req_url (last (sent (snd (bulk_create_issue c st summary issue_type)))) =
           JIRA_BASE_URL c @ ''/rest/api/3/issue''"
    by (simp add: bulk_create_issue_def sent_make_request)
  have one: "sent_summary (last (sent (snd (create_one_create_issue c st summary issue_type d p)))) =
           Some (JStr summary)"
    by (simp add: create_one_create_issue_def sent_make_request sent_summary_def body_of_def Let_def
        split: option.splits)
  have epic: "sent_summary (last (sent (snd (create_epic c st b k summary secs)))) =
           Some (JStr summary)"
    by (simp add: create_epic_def sent_jira_request sent_summary_def body_of_def)
  have story: "sent_summary (last (sent (snd (create_story c st b k summary secs epic labels)))) =
           Some (JStr summary)"
    by (simp add: create_story_def sent_jira_request sent_summary_def body_of_def Let_def
        split: option.splits)
  have sub: "sent_summary (last (sent (snd (create_subtask c st b k parent summary)))) =
           Some (JStr summary)"
    by (simp add: create_subtask_def sent_jira_request sent_summary_def body_of_def)
  from bulk len url one epic story sub show ?thesis by simp
qed

text \<open>C4 at a summary of 300 characters: bulk-create.py sends 255 of them, create-one.py
  all 300.\<close>

theorem summary_in_create_body_witness:
  "sent_summary (last (sent (snd (bulk_create_issue offline (start ())
       (replicate 300 CHR ''x'') ''Story'')))) = Some (JStr (replicate 255 CHR ''x''))
   \<and> sent_summary (last (sent (snd (create_one_create_issue offline (start ())
       (replicate 300 CHR ''x'') ''Story'' None None)))) = Some (JStr (replicate 300 CHR ''x''))"
  using summary_in_create_body [of "replicate 300 CHR ''x''" offline "start ()" "''Story''" None None]
  by simp

text \<open>C4 as stated fails for create-one.py: a summary of 256 characters reaches the
  request body with all its 256 characters.\<close>

theorem create_one_long_summary_counterexample:
  "sent_summary (last (sent (snd (create_one_create_issue offline (start ())
       (replicate 256 CHR ''x'') ''Story'' None None)))) = Some (JStr (replicate 256 CHR ''x''))
   \<and> length (replicate 256 CHR ''x'') = 256"
  by (simp add: create_one_create_issue_def sent_make_request sent_summary_def body_of_def)


section \<open>Loading the configuration\<close>

lemma load_env_lines_frame:
  "env k = Some v \<Longrightarrow> fst (load_env_lines env ls) k = Some v"
proof (induction ls arbitrary: env)
  case Nil
  then show ?case by simp
next
  case (Cons l ls)
  show ?case
  proof (cases "env_line l")
    case None
    with Cons show ?thesis by simp
  next
    case (Some kv)
    obtain k' v' where kv: "kv = (k', v')" by (cases kv)
    show ?thesis
    proof (cases "setdefault env k' v'")
      case (Inl e)
      with Some kv Cons.prems show ?thesis by simp
    next
      case (Inr env')
      have "env' k = Some v"
        using Inr Cons.prems by (auto simp: setdefault_def split: option.splits if_splits)
      with Cons.IH [of env'] Some kv Inr show ?thesis by simp
    qed
  qed
qed

text \<open>
  C5. Whatever the environment file holds, and whether or not loading it ends in an
  exception, a variable that is set in the process environment before \<open>load_env\<close> has the
  same value after it.
\<close>

theorem load_env_keeps_process_environment:
  assumes "env k = Some v"
  shows "fst (load_env env env_file) k = Some v"
  using assms by (cases env_file) (simp_all add: load_env_def load_env_lines_frame)

text \<open>C5 at a file that sets \<open>JIRA_EMAIL\<close> to another address: the address of the process
  environment stays.\<close>

theorem load_env_keeps_process_environment_witness:
  "fst (load_env [''JIRA_EMAIL'' \<mapsto> ''me@example.com'']
         (Some [''# credentials'', ''JIRA_EMAIL=other@example.com'', ''JIRA_PROJECT_KEY = DEMO '']))
     ''JIRA_EMAIL'' = Some ''me@example.com''"
  using load_env_keeps_process_environment
    [of "[''JIRA_EMAIL'' \<mapsto> ''me@example.com'']" "''JIRA_EMAIL''" "''me@example.com''"
        "Some [''# credentials'', ''JIRA_EMAIL=other@example.com'', ''JIRA_PROJECT_KEY = DEMO '']"]
  by simp

text \<open>The file still supplies what the process environment does not set, and the built-in
  default what neither sets.\<close>

lemma load_env_precedence_example:
  "fst (load_env [''JIRA_EMAIL'' \<mapsto> ''me@example.com'']
         (Some [''# credentials'', ''JIRA_EMAIL=other@example.com'', ''JIRA_PROJECT_KEY = DEMO '']))
     ''JIRA_PROJECT_KEY'' = Some ''DEMO''
   \<and> fst (load_env [''JIRA_EMAIL'' \<mapsto> ''me@example.com'']
         (Some [''# credentials'', ''JIRA_EMAIL=other@example.com'', ''JIRA_PROJECT_KEY = DEMO '']))
     ''JIRA_BOARD_ID'' = None"
  by (simp add: load_env_def env_line_def strip_def is_space_def setdefault_def putenv_rejects_def)

lemma str_truthy_iff: "str_truthy v \<longleftrightarrow> \<not> absent_or_empty v"
  by (cases v) (simp_all add: str_truthy_def absent_or_empty_def)

text \<open>
  C6, as the code has it. \<open>get_config\<close> exits with code 1, after the three lines on
  \<open>stderr\<close> that name the required variables, if and only if at least one of
  \<open>JIRA_EMAIL\<close>, \<open>JIRA_API_TOKEN\<close> and \<open>JIRA_BASE_URL\<close> is absent from the merged environment
  or set to the empty string; otherwise it returns the configuration, with the project key
  \<open>SCRUM\<close> and the board id \<open>1\<close> when their variables are absent.
\<close>

theorem get_config_missing_iff:
  "get_config env =
     (if absent_or_empty (env ''JIRA_EMAIL'') \<or> absent_or_empty (env ''JIRA_API_TOKEN'') \<or>
         absent_or_empty (env ''JIRA_BASE_URL'')
      then Inl (SystemExit 1
             [''Error: Missing required environment variables.'',
              ''Required: JIRA_EMAIL, JIRA_API_TOKEN, JIRA_BASE_URL'',
              ''Set these in .claude/skills/jira/.env or export them manually.''])
      else Inr \<lparr>cfg_email = env ''JIRA_EMAIL'', cfg_token = env ''JIRA_API_TOKEN'',
                cfg_base_url = env ''JIRA_BASE_URL'',
                cfg_project_key = (case env ''JIRA_PROJECT_KEY'' of None \<Rightarrow> ''SCRUM'' | Some v \<Rightarrow> v),
                cfg_board_id = (case env ''JIRA_BOARD_ID'' of None \<Rightarrow> ''1'' | Some v \<Rightarrow> v)\<rparr>)"
  by (simp add: get_config_def Let_def str_truthy_iff missing_credentials_def)

text \<open>C6 at an environment with the three credentials and nothing else: the configuration
  comes back with both defaults.\<close>

theorem get_config_missing_iff_witness:
  "get_config [''JIRA_EMAIL'' \<mapsto> ''me@example.com'', ''JIRA_API_TOKEN'' \<mapsto> ''secret'',
               ''JIRA_BASE_URL'' \<mapsto> ''https://example.atlassian.net''] =
     Inr \<lparr>cfg_email = Some ''me@example.com'', cfg_token = Some ''secret'',
          cfg_base_url = Some ''https://example.atlassian.net'',
          cfg_project_key = ''SCRUM'', cfg_board_id = ''1''\<rparr>"
  using get_config_missing_iff
    [of "[''JIRA_EMAIL'' \<mapsto> ''me@example.com'', ''JIRA_API_TOKEN'' \<mapsto> ''secret'',
          ''JIRA_BASE_URL'' \<mapsto> ''https://example.atlassian.net'']"]
  by (simp add: absent_or_empty_def)

text \<open>C6 as stated fails in one direction: with \<open>JIRA_EMAIL\<close> set to the empty string (the
  line \<open>JIRA_EMAIL=\<close> of an environment file) all three variables are present and
  \<open>get_config\<close> exits.\<close>

theorem get_config_empty_value_counterexample:
  "[''JIRA_EMAIL'' \<mapsto> '''', ''JIRA_API_TOKEN'' \<mapsto> ''secret'',
    ''JIRA_BASE_URL'' \<mapsto> ''https://example.atlassian.net''] ''JIRA_EMAIL'' = Some ''''
   \<and> fst (load_env Map.empty (Some [''JIRA_EMAIL='', ''JIRA_API_TOKEN=secret''])) ''JIRA_EMAIL'' =
       Some ''''
   \<and> get_config [''JIRA_EMAIL'' \<mapsto> '''', ''JIRA_API_TOKEN'' \<mapsto> ''secret'',
               ''JIRA_BASE_URL'' \<mapsto> ''https://example.atlassian.net''] = Inl missing_credentials"
  by (simp add: get_config_def str_truthy_def load_env_def env_line_def strip_def is_space_def
      setdefault_def putenv_rejects_def)


section \<open>The request helpers\<close>

text \<open>\<open>str_nat\<close> writes a number in decimal: reading the digits back gives the number.\<close>

lemma digit_char_code:
  assumes "d < 10"
  shows "of_char (digit_char d) = (48 + d :: nat)"
proof -
  from assms have "d \<in> {0, 1, 2, 3, 4, 5, 6, 7, 8, 9}" by auto
  then show ?thesis by (auto simp: digit_char_def)
qed

lemma str_nat_decimal:
  "foldl (\<lambda>a ch. 10 * a + (of_char ch - 48)) 0 (str_nat n) = n"
proof (induction n rule: str_nat.induct)
  case (1 n)
  show ?case
  proof (cases "n < 10")
    case True
    then show ?thesis by (subst str_nat.simps) (simp add: digit_char_code)
  next
    case False
    have "n mod 10 < 10" by simp
    then have d: "of_char (digit_char (n mod 10)) = (48 + n mod 10 :: nat)"
      by (rule digit_char_code)
    from False "1.IH" d show ?thesis
      by (subst str_nat.simps) simp
  qed
qed

text \<open>
  C7, as the code has it. On a response, \<open>jira_request\<close> returns \<open>None\<close> for status 204 and
  \<open>confluence_request\<close> (of create-space.py and delete-space.py) for 204 and 202, and both
  hand every other body to \<open>json.loads\<close>;
  \<open>make_request\<close> of check-issues.py tests no status and hands every body to \<open>json.loads\<close>.
  On an \<open>HTTPError\<close> each raises an exception whose message is the status code in decimal,
  a colon and a space, and the first 300 characters of the body (the first 200 in
  check-issues.py).
\<close>

theorem request_helper_results:
  "jira_request_result c (Responded status body) =
     (if status = 204 then Inr JNull else parse_json c body)
   \<and> confluence_request_result c (Responded status body) =
     (if status = 204 \<or> status = 202 then Inr JNull else parse_json c body)
   \<and> check_issues_make_request_result c (Responded status body) = parse_json c body
   \<and> jira_request_result c (RaisedHTTPError code error_body) =
       Inl (Exception (str_nat code @ '': '' @ take 300 error_body))
   \<and> confluence_request_result c (RaisedHTTPError code error_body) =
       Inl (Exception (str_nat code @ '': '' @ take 300 error_body))
   \<and> check_issues_make_request_result c (RaisedHTTPError code error_body) =
       Inl (Exception (str_nat code @ '': '' @ take 200 error_body))
   \<and> length (take 300 error_body) \<le> 300 \<and> length (take 200 error_body) \<le> 200"
  by (simp add: jira_request_result_def confluence_request_result_def
      check_issues_make_request_result_def)

text \<open>C7 at a 404 whose body has 400 characters, and at a 204.\<close>

theorem request_helper_results_witness:
  "jira_request_result offline (RaisedHTTPError 404 (replicate 400 CHR ''x'')) =
     Inl (Exception (''404: '' @ replicate 300 CHR ''x''))
   \<and> check_issues_make_request_result offline (RaisedHTTPError 404 (replicate 400 CHR ''x'')) =
     Inl (Exception (''404: '' @ replicate 200 CHR ''x''))
   \<and> jira_request_result offline (Responded 204 '''') = Inr JNull
   \<and> confluence_request_result offline (Responded 202 '''') = Inr JNull"
proof -
  have code: "str_nat 404 = ''404''"
    by (simp add: str_nat.simps digit_char_def)
  show ?thesis
    using request_helper_results [of offline 204 "''''" 404 "replicate 400 CHR ''x''"]
      request_helper_results [of offline 202 "''''" 404 "replicate 400 CHR ''x''"] code
    by simp
qed

text \<open>C7 as stated fails for check-issues.py: on status 204 with its empty body the helper
  does not return an empty result, it raises \<open>JSONDecodeError\<close>.\<close>

theorem check_issues_204_counterexample:
  "check_issues_make_request_result offline (Responded 204 '''') = Inl JSONDecodeError"
  by (simp add: check_issues_make_request_result_def parse_json_def offline_def)


section \<open>Validating a space key\<close>

text \<open>
  C9. When \<open>main\<close> of create-space.py gets past its usage check, it upper-cases the first
  argument and matches the result against \<open>^[A-Z][A-Z0-9]*$\<close>. When the match fails it
  exits with code 1 and the run is as it was: no request has been sent. When the match
  succeeds the one request it sends is the \<open>POST\<close> to \<open>/wiki/rest/api/space\<close>, whose key
  is the upper-cased argument.
\<close>

theorem create_space_key_validation:
  assumes "2 \<le> length args" "''--help'' \<notin> set args" "''-h'' \<notin> set args"
    and "upper_in_model (args ! 0)"
  shows "(\<not> space_key_match (upper (args ! 0)) \<longrightarrow> create_space_main c st args = (1, st))
       \<and> (space_key_match (upper (args ! 0)) \<longrightarrow>
            (\<exists>data. sent (snd (create_space_main c st args)) =
                 sent st @ [\<lparr>req_method = ''POST'',
                             req_url = JIRA_BASE_URL c @ ''/wiki/rest/api/space'',
                             req_body = Some (JObj data)\<rparr>]
               \<and> map_of data ''key'' = Some (JStr (upper (args ! 0)))))"
proof (intro conjI impI)
  assume "\<not> space_key_match (upper (args ! 0))"
  with assms show "create_space_main c st args = (1, st)"
    by (simp add: create_space_main_def Let_def)
next
  assume m: "space_key_match (upper (args ! 0))"
  let ?descr = "if 2 < length args then args ! 2 else []"
  let ?call = "create_space c st (upper (args ! 0)) (args ! 1) ?descr"
  have same: "sent (snd (create_space_main c st args)) = sent (snd ?call)"
    using assms m
    by (cases ?call) (simp add: create_space_main_def Let_def split: sum.splits)
  have "\<exists>data. sent (snd ?call) =
                 sent st @ [\<lparr>req_method = ''POST'',
                             req_url = JIRA_BASE_URL c @ ''/wiki/rest/api/space'',
                             req_body = Some (JObj data)\<rparr>]
               \<and> map_of data ''key'' = Some (JStr (upper (args ! 0)))"
    by (simp add: create_space_def Let_def sent_confluence_request body_of_def upper_idem)
  with same show "\<exists>data. sent (snd (create_space_main c st args)) =
                 sent st @ [\<lparr>req_method = ''POST'',
                             req_url = JIRA_BASE_URL c @ ''/wiki/rest/api/space'',
                             req_body = Some (JObj data)\<rparr>]
               \<and> map_of data ''key'' = Some (JStr (upper (args ! 0)))"
    by simp
qed

text \<open>C9 at the two keys of the scenario, and at a key with a sharp s: \<open>docs\<close> becomes
  \<open>DOCS\<close>, matches, and is sent; \<open>1DOC\<close> does not match, and the run ends with code 1 and
  nothing sent; the sharp s becomes \<open>SS\<close>, and the key matches and is sent.\<close>

theorem create_space_key_validation_witness:
  "upper ''docs'' = ''DOCS'' \<and> space_key_match ''DOCS''
   \<and> (\<exists>data. sent (snd (create_space_main offline (start ()) [''docs'', ''Docs''])) =
          [\<lparr>req_method = ''POST'',
            req_url = JIRA_BASE_URL offline @ ''/wiki/rest/api/space'',
            req_body = Some (JObj data)\<rparr>]
        \<and> map_of data ''key'' = Some (JStr ''DOCS''))
   \<and> \<not> space_key_match (upper ''1DOC'')
   \<and> create_space_main offline (start ()) [''1DOC'', ''Docs''] = (1, start ())
   \<and> upper (''stra'' @ [CHR 0xDF] @ ''e'') = ''STRASSE''
   \<and> (\<exists>data. sent (snd (create_space_main offline (start ())
                           [''stra'' @ [CHR 0xDF] @ ''e'', ''Docs''])) =
          [\<lparr>req_method = ''POST'',
            req_url = JIRA_BASE_URL offline @ ''/wiki/rest/api/space'',
            req_body = Some (JObj data)\<rparr>]
        \<and> map_of data ''key'' = Some (JStr ''STRASSE''))"
proof -
  have u: "upper ''docs'' = ''DOCS''" "upper ''1DOC'' = ''1DOC''"
          "upper (''stra'' @ [CHR 0xDF] @ ''e'') = ''STRASSE''"
    by (simp_all add: upper_def upper_char_def capitals_def smalls_def)
  have m: "space_key_match ''DOCS''" "\<not> space_key_match ''1DOC''" "space_key_match ''STRASSE''"
    by (simp_all add: space_key_match_def is_capital_def is_capital_or_digit_def)
  have r: "upper_in_model ''docs''" "upper_in_model ''1DOC''"
          "upper_in_model (''stra'' @ [CHR 0xDF] @ ''e'')"
    by (simp_all add: upper_in_model_def)
  show ?thesis
    using create_space_key_validation [of "[''docs'', ''Docs'']" offline "start ()"]
      create_space_key_validation [of "[''1DOC'', ''Docs'']" offline "start ()"]
      create_space_key_validation [of "[''stra'' @ [CHR 0xDF] @ ''e'', ''Docs'']" offline "start ()"]
      u m r
    by (simp add: start_def)
qed


section \<open>The bulk-create loop\<close>

lemma batch_sizes_step:
  assumes "0 < n"
  shows "batch_sizes n = min 5 n # batch_sizes (n - 5)"
proof (cases "5 \<le> n")
  case True
  then have "n div 5 = Suc ((n - 5) div 5)" "(n - 5) mod 5 = n mod 5"
    by (simp_all add: le_div_geq le_mod_geq)
  with True show ?thesis by (simp add: batch_sizes_def)
next
  case False
  with assms show ?thesis by (simp add: batch_sizes_def)
qed

lemma batch_sizes_0: "batch_sizes 0 = []"
  by (simp add: batch_sizes_def)

lemma is_create_create_request: "is_create_request c (create_request c m)"
  by (simp add: is_create_request_def create_request_def)

lemma get_transitions_sent:
  "get_transitions c st key = (r, st') \<Longrightarrow>
     filter (is_create_request c) (sent st') = filter (is_create_request c) (sent st)"
  by (auto simp: get_transitions_def is_create_request_def
      split: prod.splits sum.splits dest!: make_request_sent)

lemma transition_to_done_sent:
  "transition_to_done c st key = (r, st') \<Longrightarrow>
     filter (is_create_request c) (sent st') = filter (is_create_request c) (sent st)"
  by (auto simp: transition_to_done_def is_create_request_def
      split: prod.splits sum.splits if_splits dest!: make_request_sent get_transitions_sent)

lemma bulk_create_issue_sent:
  "bulk_create_issue c st m ''Story'' = (r, st') \<Longrightarrow> sent st' = sent st @ [create_request c m]"
  by (auto simp: bulk_create_issue_def create_request_def body_of_def dest!: make_request_sent)

lemma try_commit_sent:
  "try_commit c st m = (r, st') \<Longrightarrow>
     filter (is_create_request c) (sent st') =
       filter (is_create_request c) (sent st) @ [create_request c m]"
  by (auto simp: try_commit_def is_create_create_request
      split: prod.splits sum.splits dest!: bulk_create_issue_sent transition_to_done_sent)

text \<open>One item: an exception in the \<open>try\<close> block adds one to \<open>failed\<close>, its absence one to
  \<open>created\<close>, and the run goes on from where the block left it.\<close>

lemma process_commit_raised:
  "isl (fst (try_commit c (run t) m)) \<Longrightarrow>
     process_commit c t m = t\<lparr>failed := failed t + 1, run := snd (try_commit c (run t) m)\<rparr>"
  by (cases "try_commit c (run t) m") (auto simp: process_commit_def split: sum.splits)

lemma process_commit_completed:
  "\<not> isl (fst (try_commit c (run t) m)) \<Longrightarrow>
     process_commit c t m = t\<lparr>created := created t + 1, run := snd (try_commit c (run t) m)\<rparr>"
  by (cases "try_commit c (run t) m") (auto simp: process_commit_def split: sum.splits)

lemma process_commit_run: "run (process_commit c t m) = snd (try_commit c (run t) m)"
  by (cases "isl (fst (try_commit c (run t) m))")
     (simp_all add: process_commit_raised process_commit_completed)

lemma process_commit_failed:
  "failed (process_commit c t m) =
     failed t + length (filter (\<lambda>e. e) [isl (fst (try_commit c (run t) m))])"
  by (cases "isl (fst (try_commit c (run t) m))")
     (simp_all add: process_commit_raised process_commit_completed)

lemma process_commit_created:
  "created (process_commit c t m) =
     created t + length (filter (\<lambda>e. \<not> e) [isl (fst (try_commit c (run t) m))])"
  by (cases "isl (fst (try_commit c (run t) m))")
     (simp_all add: process_commit_raised process_commit_completed)

lemma process_commit_exactly_one:
  "(created (process_commit c t m) = created t + 1 \<and> failed (process_commit c t m) = failed t)
   \<or> (created (process_commit c t m) = created t \<and> failed (process_commit c t m) = failed t + 1)"
  by (cases "isl (fst (try_commit c (run t) m))")
     (simp_all add: process_commit_raised process_commit_completed)

lemma process_commit_batch_log: "batch_log (process_commit c t m) = batch_log t"
  by (cases "isl (fst (try_commit c (run t) m))")
     (simp_all add: process_commit_raised process_commit_completed)

lemma process_commit_sent:
  "filter (is_create_request c) (sent (run (process_commit c t m))) =
     filter (is_create_request c) (sent (run t)) @ [create_request c m]"
  by (cases "try_commit c (run t) m") (simp add: process_commit_run try_commit_sent)

text \<open>A request to create the issue that is answered with an HTTP error is such an
  exception.\<close>

lemma try_commit_create_refused:
  assumes "remote c (world st) (create_request c m) = (RaisedHTTPError code body, w')"
  shows "try_commit c st m =
           (Inl (Exception (str_nat code @ '': '' @ take 200 body)),
            \<lparr>world = w', sent = sent st @ [create_request c m]\<rparr>)"
  using assms
  by (simp add: try_commit_def bulk_create_issue_def make_request_def urlopen_def body_of_def
      create_request_def make_request_result_def)

text \<open>The items of a list, one after the other.\<close>

lemma item_errors_append:
  "item_errors c st (xs @ ys) = item_errors c st xs @ item_errors c (after_items c st xs) ys"
  by (induction xs arbitrary: st) simp_all

lemma after_items_append:
  "after_items c st (xs @ ys) = after_items c (after_items c st xs) ys"
  by (induction xs arbitrary: st) simp_all

lemma length_item_errors: "length (item_errors c st ms) = length ms"
  by (induction ms arbitrary: st) simp_all

lemma foldl_process_commit_run:
  "run (foldl (process_commit c) t ms) = after_items c (run t) ms"
  by (induction ms arbitrary: t) (simp_all add: process_commit_run)

lemma foldl_process_commit_failed:
  "failed (foldl (process_commit c) t ms) =
     failed t + length (filter (\<lambda>e. e) (item_errors c (run t) ms))"
  by (induction ms arbitrary: t) (simp_all add: process_commit_failed process_commit_run)

lemma foldl_process_commit_created:
  "created (foldl (process_commit c) t ms) =
     created t + length (filter (\<lambda>e. \<not> e) (item_errors c (run t) ms))"
  by (induction ms arbitrary: t) (simp_all add: process_commit_created process_commit_run)

lemma foldl_process_commit_batch_log:
  "batch_log (foldl (process_commit c) t ms) = batch_log t"
  by (induction ms arbitrary: t) (simp_all add: process_commit_batch_log)

lemma foldl_process_commit_sent:
  "filter (is_create_request c) (sent (run (foldl (process_commit c) t ms))) =
     filter (is_create_request c) (sent (run t)) @ map (create_request c) ms"
  by (induction ms arbitrary: t) (simp_all add: process_commit_sent)

text \<open>One round of the outer loop, and the loop past the end of the list.\<close>

lemma batch_loop_step:
  "i < length commits \<Longrightarrow>
     batch_loop c commits i t =
       batch_loop c commits (i + batch_size)
         (foldl (process_commit c)
            (t\<lparr>batch_log := batch_log t @ [take batch_size (drop i commits)]\<rparr>)
            (take batch_size (drop i commits)))"
  by (subst batch_loop.simps) (simp add: Let_def)

lemma batch_loop_done: "\<not> i < length commits \<Longrightarrow> batch_loop c commits i t = t"
  by (subst batch_loop.simps) simp

lemma take_batch_drop:
  "take batch_size (drop i commits) @ drop (i + batch_size) commits = drop i commits"
  using append_take_drop_id [of batch_size "drop i commits"] by (simp add: add.commute)

text \<open>The loop in batches does to the counters and to the run what the items one after
  the other do.\<close>

lemma batch_loop_items:
  "run (batch_loop c commits i t) = after_items c (run t) (drop i commits)
   \<and> failed (batch_loop c commits i t) =
       failed t + length (filter (\<lambda>e. e) (item_errors c (run t) (drop i commits)))
   \<and> created (batch_loop c commits i t) =
       created t + length (filter (\<lambda>e. \<not> e) (item_errors c (run t) (drop i commits)))"
proof (induction c commits i t rule: batch_loop.induct)
  case (1 c commits i t)
  show ?case
  proof (cases "i < length commits")
    case True
    let ?batch = "take batch_size (drop i commits)"
    let ?rest = "drop (i + batch_size) commits"
    let ?t1 = "t\<lparr>batch_log := batch_log t @ [?batch]\<rparr>"
    let ?t2 = "foldl (process_commit c) ?t1 ?batch"
    have split: "drop i commits = ?batch @ ?rest"
      by (simp add: take_batch_drop)
    have r2: "run ?t2 = after_items c (run t) ?batch"
      by (simp add: foldl_process_commit_run)
    have f2: "failed ?t2 = failed t + length (filter (\<lambda>e. e) (item_errors c (run t) ?batch))"
      by (simp add: foldl_process_commit_failed)
    have c2: "created ?t2 =
                created t + length (filter (\<lambda>e. \<not> e) (item_errors c (run t) ?batch))"
      by (simp add: foldl_process_commit_created)
    have errs: "item_errors c (run t) (drop i commits) =
                  item_errors c (run t) ?batch @ item_errors c (run ?t2) ?rest"
      by (subst split) (simp only: item_errors_append r2)
    have aft: "after_items c (run t) (drop i commits) = after_items c (run ?t2) ?rest"
      by (subst split) (simp only: after_items_append r2)
    from "1.IH" [OF True refl refl refl]
    have IH: "run (batch_loop c commits (i + batch_size) ?t2) = after_items c (run ?t2) ?rest"
      "failed (batch_loop c commits (i + batch_size) ?t2) =
         failed ?t2 + length (filter (\<lambda>e. e) (item_errors c (run ?t2) ?rest))"
      "created (batch_loop c commits (i + batch_size) ?t2) =
         created ?t2 + length (filter (\<lambda>e. \<not> e) (item_errors c (run ?t2) ?rest))"
      by simp_all
    have step: "batch_loop c commits i t = batch_loop c commits (i + batch_size) ?t2"
      by (rule batch_loop_step [OF True])
    have "run (batch_loop c commits i t) = after_items c (run t) (drop i commits)"
      by (simp only: step IH aft)
    moreover have "failed (batch_loop c commits i t) =
        failed t + length (filter (\<lambda>e. e) (item_errors c (run t) (drop i commits)))"
      by (simp only: step IH errs f2 filter_append length_append add.assoc)
    moreover have "created (batch_loop c commits i t) =
        created t + length (filter (\<lambda>e. \<not> e) (item_errors c (run t) (drop i commits)))"
      by (simp only: step IH errs c2 filter_append length_append add.assoc)
    ultimately show ?thesis by blast
  next
    case False
    then show ?thesis by (simp add: batch_loop_done)
  qed
qed

lemma batch_loop_total:
  "created (batch_loop c commits i t) + failed (batch_loop c commits i t) =
     created t + failed t + (length commits - i)"
proof -
  let ?es = "item_errors c (run t) (drop i commits)"
  have "length (filter (\<lambda>e. e) ?es) + length (filter (\<lambda>e. \<not> e) ?es) = length ?es"
    by (rule sum_length_filter_compl)
  then have "length (filter (\<lambda>e. e) ?es) + length (filter (\<lambda>e. \<not> e) ?es) = length commits - i"
    by (simp add: length_item_errors)
  with batch_loop_items [of c commits i t] show ?thesis
    by linarith
qed

lemma batch_loop_concat:
  "concat (batch_log (batch_loop c commits i t)) = concat (batch_log t) @ drop i commits"
proof (induction c commits i t rule: batch_loop.induct)
  case (1 c commits i t)
  show ?case
  proof (cases "i < length commits")
    case True
    let ?batch = "take batch_size (drop i commits)"
    let ?t2 = "foldl (process_commit c) (t\<lparr>batch_log := batch_log t @ [?batch]\<rparr>) ?batch"
    have log: "batch_log ?t2 = batch_log t @ [?batch]"
      by (simp add: foldl_process_commit_batch_log)
    show ?thesis
      using "1.IH" [OF True refl refl refl] batch_loop_step [OF True, of c t] log
        take_batch_drop [of i commits]
      by simp
  next
    case False
    then show ?thesis by (simp add: batch_loop_done)
  qed
qed

lemma batch_loop_sizes:
  "map length (batch_log (batch_loop c commits i t)) =
     map length (batch_log t) @ batch_sizes (length commits - i)"
proof (induction c commits i t rule: batch_loop.induct)
  case (1 c commits i t)
  show ?case
  proof (cases "i < length commits")
    case True
    let ?batch = "take batch_size (drop i commits)"
    let ?t2 = "foldl (process_commit c) (t\<lparr>batch_log := batch_log t @ [?batch]\<rparr>) ?batch"
    have log: "batch_log ?t2 = batch_log t @ [?batch]"
      by (simp add: foldl_process_commit_batch_log)
    have len: "length ?batch = min 5 (length commits - i)"
      by (simp add: batch_size_def)
    have "batch_sizes (length commits - i) =
            min 5 (length commits - i) # batch_sizes (length commits - (i + batch_size))"
      using True batch_sizes_step [of "length commits - i"] by (simp add: batch_size_def)
    then show ?thesis
      using "1.IH" [OF True refl refl refl] batch_loop_step [OF True, of c t] log len by simp
  next
    case False
    then show ?thesis by (simp add: batch_loop_done batch_sizes_0)
  qed
qed

lemma batch_loop_sent:
  "filter (is_create_request c) (sent (run (batch_loop c commits i t))) =
     filter (is_create_request c) (sent (run t)) @ map (create_request c) (drop i commits)"
proof (induction c commits i t rule: batch_loop.induct)
  case (1 c commits i t)
  show ?case
  proof (cases "i < length commits")
    case True
    let ?batch = "take batch_size (drop i commits)"
    let ?t2 = "foldl (process_commit c) (t\<lparr>batch_log := batch_log t @ [?batch]\<rparr>) ?batch"
    have s2: "filter (is_create_request c) (sent (run ?t2)) =
                filter (is_create_request c) (sent (run t)) @ map (create_request c) ?batch"
      by (simp add: foldl_process_commit_sent)
    have "map (create_request c) ?batch @ map (create_request c) (drop (i + batch_size) commits) =
               map (create_request c) (drop i commits)"
      using take_batch_drop [of i commits] by (metis map_append)
    then show ?thesis
      using "1.IH" [OF True refl refl refl] batch_loop_step [OF True, of c t] s2 by simp
  next
    case False
    then show ?thesis by (simp add: batch_loop_done)
  qed
qed

text \<open>
  C8. For every list of commit messages, whatever the remote side answers: the batches the
  loop takes are consecutive pieces of the list, all of five items but for a shorter last
  one; the request that creates an issue is sent once for every item, in list order, so no
  failure keeps a later item from being processed; an item whose \<open>try\<close> block raises (as it
  does when the request to create the issue is answered with an HTTP error) adds one to
  \<open>failed\<close> and nothing to \<open>created\<close>, an item whose block does not raise adds one to
  \<open>created\<close> and nothing to \<open>failed\<close>; at the end \<open>failed\<close> is the number of items that
  raised, \<open>created\<close> the number of the others, each item run from where the one before it
  left the remote side, and the two add up to the number of items.
\<close>

theorem bulk_create_loop_tally:
  "concat (batch_log (bulk_create_main c st commits)) = commits
   \<and> map length (batch_log (bulk_create_main c st commits)) = batch_sizes (length commits)
   \<and> created (bulk_create_main c st commits) + failed (bulk_create_main c st commits) =
       length commits
   \<and> filter (is_create_request c) (sent (run (bulk_create_main c st commits))) =
       filter (is_create_request c) (sent st) @ map (create_request c) commits
   \<and> ((created (process_commit c t m) = created t + 1 \<and> failed (process_commit c t m) = failed t)
      \<or> (created (process_commit c t m) = created t \<and> failed (process_commit c t m) = failed t + 1))
   \<and> failed (bulk_create_main c st commits) =
       length (filter (\<lambda>e. e) (item_errors c st commits))
   \<and> created (bulk_create_main c st commits) =
       length (filter (\<lambda>e. \<not> e) (item_errors c st commits))
   \<and> run (bulk_create_main c st commits) = after_items c st commits
   \<and> length (item_errors c st commits) = length commits
   \<and> (isl (fst (try_commit c (run t) m)) \<longrightarrow>
        process_commit c t m = t\<lparr>failed := failed t + 1, run := snd (try_commit c (run t) m)\<rparr>)
   \<and> (\<not> isl (fst (try_commit c (run t) m)) \<longrightarrow>
        process_commit c t m = t\<lparr>created := created t + 1, run := snd (try_commit c (run t) m)\<rparr>)
   \<and> (remote c (world (run t)) (create_request c m) = (RaisedHTTPError code body, w') \<longrightarrow>
        process_commit c t m =
          t\<lparr>failed := failed t + 1,
            run := \<lparr>world = w', sent = sent (run t) @ [create_request c m]\<rparr>\<rparr>)"
proof -
  let ?t0 = "\<lparr>created = 0, failed = 0, batch_log = [], run = st\<rparr>"
  have main: "bulk_create_main c st commits = batch_loop c commits 0 ?t0"
    by (cases commits) (simp_all add: bulk_create_main_def batch_loop_done)
  have a: "concat (batch_log (bulk_create_main c st commits)) = commits"
    by (simp add: main batch_loop_concat)
  have b: "map length (batch_log (bulk_create_main c st commits)) = batch_sizes (length commits)"
    by (simp add: main batch_loop_sizes)
  have d: "created (bulk_create_main c st commits) + failed (bulk_create_main c st commits) =
      length commits"
    by (simp add: main batch_loop_total)
  have e: "filter (is_create_request c) (sent (run (bulk_create_main c st commits))) =
       filter (is_create_request c) (sent st) @ map (create_request c) commits"
    by (simp add: main batch_loop_sent)
  have f: "failed (bulk_create_main c st commits) =
       length (filter (\<lambda>e. e) (item_errors c st commits))"
      "created (bulk_create_main c st commits) =
       length (filter (\<lambda>e. \<not> e) (item_errors c st commits))"
      "run (bulk_create_main c st commits) = after_items c st commits"
    using batch_loop_items [of c commits 0 ?t0] by (simp_all add: main)
  have g: "remote c (world (run t)) (create_request c m) = (RaisedHTTPError code body, w') \<longrightarrow>
        process_commit c t m =
          t\<lparr>failed := failed t + 1,
            run := \<lparr>world = w', sent = sent (run t) @ [create_request c m]\<rparr>\<rparr>"
  proof
    assume r: "remote c (world (run t)) (create_request c m) = (RaisedHTTPError code body, w')"
    show "process_commit c t m =
          t\<lparr>failed := failed t + 1,
            run := \<lparr>world = w', sent = sent (run t) @ [create_request c m]\<rparr>\<rparr>"
      using process_commit_raised [of c t m] try_commit_create_refused [OF r] by simp
  qed
  from a b d e f g process_commit_exactly_one [of c t m] length_item_errors [of c st commits]
    process_commit_raised [of c t m] process_commit_completed [of c t m]
  show ?thesis by blast
qed

lemma try_commit_offline:
  "try_commit offline st m = (Inl URLError, \<lparr>world = (), sent = sent st @ [create_request offline m]\<rparr>)"
  by (simp add: try_commit_def bulk_create_issue_def make_request_def urlopen_def body_of_def
      create_request_def make_request_result_def offline_def)

text \<open>C8 at seven items with no network: two batches, of five and of two; every item
  raises, so none is created and seven have failed. And at three items of which the remote
  side rejects the second: the first and the third are created, the second has failed.\<close>

theorem bulk_create_loop_tally_witness:
  "batch_log (bulk_create_main offline (start ())
      [''c1'', ''c2'', ''c3'', ''c4'', ''c5'', ''c6'', ''c7'']) =
       [[''c1'', ''c2'', ''c3'', ''c4'', ''c5''], [''c6'', ''c7'']]
   \<and> created (bulk_create_main offline (start ())
      [''c1'', ''c2'', ''c3'', ''c4'', ''c5'', ''c6'', ''c7'']) = 0
   \<and> failed (bulk_create_main offline (start ())
      [''c1'', ''c2'', ''c3'', ''c4'', ''c5'', ''c6'', ''c7'']) = 7
   \<and> item_errors rejects_c2 (start 0) [''c1'', ''c2'', ''c3''] = [False, True, False]
   \<and> created (bulk_create_main rejects_c2 (start 0) [''c1'', ''c2'', ''c3'']) = 2
   \<and> failed (bulk_create_main rejects_c2 (start 0) [''c1'', ''c2'', ''c3'']) = 1
   \<and> world (run (bulk_create_main rejects_c2 (start 0) [''c1'', ''c2'', ''c3''])) = 2"
proof -
  let ?cs = "[''c1'', ''c2'', ''c3'', ''c4'', ''c5'', ''c6'', ''c7'']"
  let ?run = "bulk_create_main offline (start ()) ?cs"
  note th = bulk_create_loop_tally [of offline "start ()" ?cs]
  have "map length (batch_log ?run) = batch_sizes (length ?cs)"
    using th by blast
  then have sizes: "map length (batch_log ?run) = [5, 2]"
    by (simp add: batch_sizes_def)
  have cat: "concat (batch_log ?run) = ?cs"
    using th by blast
  from sizes obtain b1 b2 where log: "batch_log ?run = [b1, b2]" "length b1 = 5" "length b2 = 2"
    by (auto simp: map_eq_Cons_conv)
  from cat log have "b1 = take 5 ?cs" "b2 = drop 5 ?cs"
    by (simp_all add: append_eq_conv_conj)
  with log have l: "batch_log ?run = [[''c1'', ''c2'', ''c3'', ''c4'', ''c5''], [''c6'', ''c7'']]"
    by simp
  have errs: "item_errors offline (start ()) ?cs = [True, True, True, True, True, True, True]"
    by (simp add: try_commit_offline)
  have "failed ?run = length (filter (\<lambda>e. e) (item_errors offline (start ()) ?cs))"
       "created ?run = length (filter (\<lambda>e. \<not> e) (item_errors offline (start ()) ?cs))"
    using th by blast+
  then have off: "failed ?run = 7" "created ?run = 0"
    unfolding errs by simp_all
  let ?ds = "[''c1'', ''c2'', ''c3'']"
  let ?run2 = "bulk_create_main rejects_c2 (start 0) ?ds"
  note th2 = bulk_create_loop_tally [of rejects_c2 "start 0" ?ds]
  have t1: "try_commit rejects_c2 st ''c1'' =
      (Inr (), \<lparr>world = Suc (world st), sent = sent st @ [create_request rejects_c2 ''c1'',
         \<lparr>req_method = ''GET'',
          req_url = ''https://example.atlassian.net/rest/api/3/issue/SCRUM-1/transitions'',
          req_body = None\<rparr>]\<rparr>)" for st
    by (simp add: try_commit_def bulk_create_issue_def make_request_def urlopen_def body_of_def
        create_request_def make_request_result_def rejects_c2_def sent_summary_def
        parse_json_def issue_value_def issue_body_def no_transitions_body_def
        transition_to_done_def get_transitions_def format_value_def)
  have t3: "try_commit rejects_c2 st ''c3'' =
      (Inr (), \<lparr>world = Suc (world st), sent = sent st @ [create_request rejects_c2 ''c3'',
         \<lparr>req_method = ''GET'',
          req_url = ''https://example.atlassian.net/rest/api/3/issue/SCRUM-1/transitions'',
          req_body = None\<rparr>]\<rparr>)" for st
    by (simp add: try_commit_def bulk_create_issue_def make_request_def urlopen_def body_of_def
        create_request_def make_request_result_def rejects_c2_def sent_summary_def
        parse_json_def issue_value_def issue_body_def no_transitions_body_def
        transition_to_done_def get_transitions_def format_value_def)
  have t2: "try_commit rejects_c2 st ''c2'' =
      (Inl (Exception ''400: Bad Request''),
       \<lparr>world = world st, sent = sent st @ [create_request rejects_c2 ''c2'']\<rparr>)" for st
    by (simp add: try_commit_def bulk_create_issue_def make_request_def urlopen_def body_of_def
        create_request_def make_request_result_def rejects_c2_def sent_summary_def
        str_nat.simps digit_char_def)
  have errs2: "item_errors rejects_c2 (start 0) ?ds = [False, True, False]"
    by (simp add: t1 t2 t3)
  have w2: "world (after_items rejects_c2 (start 0) ?ds) = 2"
    by (simp add: t1 t2 t3 start_def)
  have "failed ?run2 = length (filter (\<lambda>e. e) (item_errors rejects_c2 (start 0) ?ds))"
       "created ?run2 = length (filter (\<lambda>e. \<not> e) (item_errors rejects_c2 (start 0) ?ds))"
       "run ?run2 = after_items rejects_c2 (start 0) ?ds"
    using th2 by blast+
  then have rej: "failed ?run2 = 1" "created ?run2 = 2" "world (run ?run2) = 2"
    unfolding errs2 using w2 by simp_all
  from l off errs2 rej show ?thesis by simp
qed

text \<open>
  C10. In the bulk-create loop, when the issue of an item has been created and the step
  that moves it to Done raises, the item adds one to \<open>failed\<close> and nothing to \<open>created\<close>:
  the tally after the item is the tally before it with \<open>failed\<close> one higher and the run as
  the failed step left it.
\<close>

theorem transition_failure_counts_as_failed:
  assumes "bulk_create_issue c (run t) commit_msg ''Story'' = (Inr issue, st1)"
      and "getitem issue ''key'' = Inr key"
      and "transition_to_done c st1 key = (Inl e, st2)"
  shows "process_commit c t commit_msg = t\<lparr>failed := failed t + 1, run := st2\<rparr>"
  using assms by (simp add: process_commit_def try_commit_def)

text \<open>C10 at a remote side that creates the issue and answers the fetch of the transitions
  with 500: one issue exists remotely, and the tally reads zero created, one failed.\<close>

theorem transition_failure_counts_as_failed_witness:
  "process_commit transitions_down
       \<lparr>created = 0, failed = 0, batch_log = [], run = start 0\<rparr> ''Fix login'' =
     \<lparr>created = 0, failed = 1, batch_log = [],
      run = \<lparr>world = 1, sent = [create_request transitions_down ''Fix login'',
            \<lparr>req_method = ''GET'',
             req_url = ''https://example.atlassian.net/rest/api/3/issue/SCRUM-1/transitions'',
             req_body = None\<rparr>]\<rparr>\<rparr>"
proof -
  let ?t = "\<lparr>created = 0, failed = 0, batch_log = [], run = start (0::nat)\<rparr>"
  let ?st1 = "\<lparr>world = 1::nat, sent = [create_request transitions_down ''Fix login'']\<rparr>"
  let ?st2 = "\<lparr>world = 1::nat, sent = [create_request transitions_down ''Fix login'',
            \<lparr>req_method = ''GET'',
             req_url = ''https://example.atlassian.net/rest/api/3/issue/SCRUM-1/transitions'',
             req_body = None\<rparr>]\<rparr>"
  have a: "bulk_create_issue transitions_down (run ?t) ''Fix login'' ''Story'' =
             (Inr issue_value, ?st1)"
    by (simp add: bulk_create_issue_def make_request_def urlopen_def transitions_down_def
        start_def body_of_def make_request_result_def parse_json_def create_request_def)
  have b: "getitem issue_value ''key'' = Inr (JStr ''SCRUM-1'')"
    by (simp add: issue_value_def)
  have c: "transition_to_done transitions_down ?st1 (JStr ''SCRUM-1'') =
             (Inl (Exception ''500: Internal Server Error''), ?st2)"
    by (simp add: transition_to_done_def get_transitions_def make_request_def urlopen_def
        transitions_down_def body_of_def make_request_result_def format_value_def
        create_request_def str_nat.simps digit_char_def)
  show ?thesis
    using transition_failure_counts_as_failed [OF a b c] by simp
qed

end
